theory Spec2Isabelle
  imports Complex_Main "HOL-Library.AList" "HOL-Library.Log_Nat"
begin

unbundle bit_operations_syntax

section \<open>Data model\<close>

text \<open>
  The development embeds the \<^verbatim>\<open>Texture\<close> class (texture.js) and its WebGL
  backend \<^verbatim>\<open>WebglTexture\<close> (webgl/webgl-texture.js). One texture, the device
  that owns it and the debug channel form a \<open>world\<close>; every method takes the world and
  returns the world it leaves behind. A JavaScript \<^verbatim>\<open>TypeError\<close> is the value \<open>Inl TypeError\<close>.
\<close>

datatype error = TypeError

datatype dimension =
  TEXTUREDIMENSION_2D | TEXTUREDIMENSION_3D | TEXTUREDIMENSION_2D_ARRAY | TEXTUREDIMENSION_CUBE

datatype filter =
  FILTER_NEAREST | FILTER_LINEAR | FILTER_NEAREST_MIPMAP_NEAREST | FILTER_NEAREST_MIPMAP_LINEAR
| FILTER_LINEAR_MIPMAP_NEAREST | FILTER_LINEAR_MIPMAP_LINEAR

datatype lockmode = TEXTURELOCK_NONE | TEXTURELOCK_READ | TEXTURELOCK_WRITE

datatype texhint = TEXHINT_NONE | TEXHINT_SHADOWMAP | TEXHINT_ASSET | TEXHINT_LIGHTMAP

text \<open>
  The pixel formats are the constants the backend imports from constants.js. Only
  \<open>PIXELFORMAT_RGBA8\<close> (the constructor's default) and \<open>PIXELFORMAT_BGRA8\<close> (refused by
  \<^verbatim>\<open>initialize\<close>) are told apart by the modelled code; every other property of a format
  comes from the external helpers below.
\<close>

datatype pixelformat =
  PIXELFORMAT_A8 | PIXELFORMAT_L8 | PIXELFORMAT_LA8 | PIXELFORMAT_RGB565 | PIXELFORMAT_RGBA5551
| PIXELFORMAT_RGBA4 | PIXELFORMAT_RGB8 | PIXELFORMAT_RGBA8 | PIXELFORMAT_DXT1 | PIXELFORMAT_DXT3
| PIXELFORMAT_DXT5 | PIXELFORMAT_RGB16F | PIXELFORMAT_RGBA16F | PIXELFORMAT_RGB32F
| PIXELFORMAT_RGBA32F | PIXELFORMAT_R32F | PIXELFORMAT_DEPTH | PIXELFORMAT_DEPTHSTENCIL
| PIXELFORMAT_111110F | PIXELFORMAT_SRGB | PIXELFORMAT_SRGBA | PIXELFORMAT_ETC1
| PIXELFORMAT_ETC2_RGB | PIXELFORMAT_ETC2_RGBA | PIXELFORMAT_PVRTC_2BPP_RGB_1
| PIXELFORMAT_PVRTC_2BPP_RGBA_1 | PIXELFORMAT_PVRTC_4BPP_RGB_1 | PIXELFORMAT_PVRTC_4BPP_RGBA_1
| PIXELFORMAT_ASTC_4x4 | PIXELFORMAT_ATC_RGB | PIXELFORMAT_ATC_RGBA | PIXELFORMAT_BGRA8
| PIXELFORMAT_R8I | PIXELFORMAT_R8U | PIXELFORMAT_R16I | PIXELFORMAT_R16U | PIXELFORMAT_R32I
| PIXELFORMAT_R32U | PIXELFORMAT_RG16I | PIXELFORMAT_RG16U | PIXELFORMAT_RG32I
| PIXELFORMAT_RG32U | PIXELFORMAT_RG8I | PIXELFORMAT_RG8U | PIXELFORMAT_RGBA16I
| PIXELFORMAT_RGBA16U | PIXELFORMAT_RGBA32I | PIXELFORMAT_RGBA32U | PIXELFORMAT_RGBA8I
| PIXELFORMAT_RGBA8U | PIXELFORMAT_R16F | PIXELFORMAT_RG16F | PIXELFORMAT_R8 | PIXELFORMAT_RG8

text \<open>
  The diagnostics of the debug channel, one constructor per call site of
  \<^verbatim>\<open>Debug.assert\<close>, \<^verbatim>\<open>Debug.warn\<close> and \<^verbatim>\<open>Debug.error\<close>:
  \<^item> \<open>Assert_CubeSlices\<close>: "Texture cube map must have 6 slices"
  \<^item> \<open>Assert_LevelsNotArray\<close>: "Texture levels must be a single array for non-array textures"
  \<^item> \<open>Assert_LevelsSliceCount\<close>: "Texture levels must have the same number of slices as the texture"
  \<^item> \<open>Warn_MinFilterInteger\<close>, \<open>Warn_MagFilterInteger\<close>: "... cannot be changed on an integer texture, will remain FILTER_NEAREST"
  \<^item> \<open>Warn_MipmapsWebGPU\<close>: "mipmap property is currently not allowed to be changed on WebGPU ..."
  \<^item> \<open>Warn_MipmapsInteger\<close>: "mipmap property cannot be changed on an integer texture, will remain false"
  \<^item> \<open>Assert_AlreadyLocked\<close>: "The texture is already locked. ..."
  \<^item> \<open>Assert_LockMode\<close>: "Cannot lock a texture with TEXTURELOCK_NONE. ..."
  \<^item> \<open>Assert_LockSlice\<close>: "Cannot lock a slice of a non-cubemap or non-texture array texture."
  \<^item> \<open>Assert_SliceBounds\<close>: "Slice index out of bounds."
  \<^item> \<open>Warn_UnlockNotLocked\<close>: "Attempting to unlock a texture that is not locked."
  \<^item> \<open>Assert_Destroyed\<close>: "Attempting to use a texture that has been destroyed."
  \<^item> \<open>Assert_DirtySlicesBoolean\<close>: "Invalid dirty slices for texture array or cubemap."
  \<^item> \<open>Warn_Downsample\<close>: "Image dimensions larger than max supported texture size ..."
  \<^item> \<open>Error_BGRA8\<close>: "BGRA8 texture format is not supported by WebGL."
\<close>

datatype diagnostic =
  Assert_CubeSlices | Assert_LevelsNotArray | Assert_LevelsSliceCount
| Warn_MinFilterInteger | Warn_MagFilterInteger | Warn_MipmapsWebGPU | Warn_MipmapsInteger
| Assert_AlreadyLocked | Assert_LockMode | Assert_LockSlice | Assert_SliceBounds
| Warn_UnlockNotLocked | Assert_Destroyed | Assert_DirtySlicesBoolean | Warn_Downsample
| Error_BGRA8

subsection \<open>Pixel data\<close>

text \<open>
  Modelled from the spec: the device predicates \<^verbatim>\<open>_isBrowserInterface\<close>,
  \<^verbatim>\<open>_isImageBrowserInterface\<close> and \<^verbatim>\<open>_isImageVideoInterface\<close> are not among the
  sources. The spec's source element is "anything exposing width/height (or
  videoWidth/videoHeight) and recognized by the device": an \<open>element\<close> is such an
  object, \<open>el_image\<close> and \<open>el_video\<close> are the device's answers to the other two
  predicates for it, and a missing \<^verbatim>\<open>videoWidth\<close> is 0. A typed array (raw pixel
  data) is not recognized by the device and carries its byte length only.
\<close>

record element =
  el_width :: int
  el_height :: int
  el_videoWidth :: int
  el_videoHeight :: int
  el_image :: bool
  el_video :: bool

datatype pixel_source = TypedArray int | Element element

text \<open>
  A slot of a JavaScript array or Map may hold \<^verbatim>\<open>null\<close>/\<^verbatim>\<open>undefined\<close>: \<open>None\<close>.
  A mip level of \<^verbatim>\<open>_levels\<close> is one object (2D, 3D) or a Map from slice to object
  (array, cubemap). Maps are association lists in insertion order, written with
  \<open>AList.update\<close>, which keeps the place of a key already present as \<^verbatim>\<open>Map.set\<close> does.
\<close>

datatype level_entry =
  Single "pixel_source option"
| Slices "(int \<times> pixel_source option) list"

datatype dirty_entry =
  DirtyFlag bool
| DirtySlices "int list"

subsection \<open>The WebGL calls\<close>

datatype gl_target =
  TEXTURE_2D | TEXTURE_3D | TEXTURE_2D_ARRAY | TEXTURE_CUBE_MAP
| TEXTURE_CUBE_MAP_POSITIVE_X int

text \<open>
  The calls issued on \<^verbatim>\<open>device.gl\<close>, with the arguments that identify the region:
  target, mip level, slice where there is one, the explicit width and height where the
  call has them, and the object uploaded (\<open>None\<close> for \<^verbatim>\<open>undefined\<close>). The native
  format triple chosen by \<^verbatim>\<open>initialize\<close> only flows into these calls and is left out.
\<close>

datatype gl_call =
  CreateTexture
| DeleteTexture
| BindTexture "gl_target option"
| TexImage2D gl_target int "(int \<times> int) option" "level_entry option"
| TexSubImage2D gl_target int "(int \<times> int) option" "level_entry option"
| CompressedTexImage2D gl_target int int int "level_entry option"
| CompressedTexSubImage2D gl_target int int int "level_entry option"
| TexImage3D int int int int "level_entry option"
| CompressedTexImage3D int int int int "level_entry option"
| TexStorage3D int int int int
| TexSubImage3D int int int int "level_entry option"
| CompressedTexSubImage3D int int int int "level_entry option"
| GenerateMipmap "gl_target option"

subsection \<open>Backend object, texture, device\<close>

record webgl_texture =
  glTexture :: bool
  glTarget :: "gl_target option"
  glCreated :: bool
  dirtyParameterFlags :: int

record vram_stats =
  tex :: int
  texShadow :: int
  texAsset :: int
  texLightmap :: int

text \<open>
  The device fields the two classes read or write. \<open>gl\<close> is the log of calls made on
  the WebGL context, oldest first. The texture-unit cache and the uniform scope, which
  \<^verbatim>\<open>destroy\<close> also clears, are not modelled.
\<close>

record device =
  vram :: vram_stats
  textures :: "nat list"
  renderVersion :: int
  isWebGPU :: bool
  maxTextureSize :: int
  maxCubeMapSize :: int
  unpackFlipY :: bool
  unpackPremultiplyAlpha :: bool
  gl :: "gl_call list"

text \<open>
  The fields of \<^verbatim>\<open>Texture\<close> with the leading underscore dropped; \<open>gpuSize_recorded\<close> is
  \<^verbatim>\<open>_gpuSize\<close> (the getter \<^verbatim>\<open>gpuSize\<close> is a function below), \<open>has_device\<close> says that
  \<^verbatim>\<open>this.device\<close> is not null. The name, type, projection, storage flag, anisotropy,
  address modes and compare state are plain data no modelled method reads; they are left out.
\<close>

record texture =
  gpuSize_recorded :: int
  tex_id :: nat
  invalid :: bool
  lockedMode :: lockmode
  renderVersionDirty :: int
  dirtyLevels :: "(int \<times> dirty_entry) list"
  operation :: int
  levels :: "(int \<times> level_entry) list"
  has_device :: bool
  dimension :: dimension
  width :: int
  height :: int
  slices :: int
  format :: pixelformat
  mipmaps :: bool
  minFilter :: filter
  magFilter :: filter
  compressed :: bool
  integerFormat :: bool
  flipY :: bool
  premultiplyAlpha :: bool
  impl :: webgl_texture
  profilerHint :: texhint

record world =
  w_dev :: device
  w_tex :: texture
  w_diags :: "diagnostic list"

subsection \<open>Helpers that are outside the sources\<close>

text \<open>
  \<^verbatim>\<open>isIntegerPixelFormat\<close>, \<^verbatim>\<open>isCompressedPixelFormat\<close> (constants.js),
  \<^verbatim>\<open>TextureUtils.calcGpuSize\<close>, \<^verbatim>\<open>TextureUtils.calcLevelGpuSize\<close> (texture-utils.js) and
  \<^verbatim>\<open>math.powerOfTwo\<close> (math.js) are parameters: every theorem holds for any choice of
  them. \<open>scaleFloor src size m\<close> stands for the double-precision
  \<^verbatim>\<open>Math.floor(src * (size / m))\<close> of \<^verbatim>\<open>downsampleImage\<close>.
\<close>

record externals =
  isIntegerPixelFormat :: "pixelformat \<Rightarrow> bool"
  isCompressedPixelFormat :: "pixelformat \<Rightarrow> bool"
  calcGpuSize :: "int \<Rightarrow> int \<Rightarrow> int \<Rightarrow> pixelformat \<Rightarrow> bool \<Rightarrow> bool \<Rightarrow> int"
  calcLevelGpuSize :: "int \<Rightarrow> int \<Rightarrow> int \<Rightarrow> pixelformat \<Rightarrow> int"
  powerOfTwo :: "int \<Rightarrow> bool"
  scaleFloor :: "int \<Rightarrow> int \<Rightarrow> int \<Rightarrow> int"

fun floor_log2 :: "nat \<Rightarrow> nat" where
  "floor_log2 n = (if n < 2 then 0 else Suc (floor_log2 (n div 2)))"

declare floor_log2.simps [simp del]

text \<open>
  Modelled from the spec: \<^verbatim>\<open>TextureUtils.calcMipLevelsCount\<close> (texture-utils.js) is not
  among the sources. The spec gives the required level count of a mipmapped texture as
  \<^verbatim>\<open>floor(log2(max(width,height))) + 1\<close> and says nothing of the third argument, so the
  depth is accepted and not used. The logarithm is computed by halving.
\<close>

definition calcMipLevelsCount :: "int \<Rightarrow> int \<Rightarrow> int \<Rightarrow> nat" where
  "calcMipLevelsCount w h d = 1 + floor_log2 (nat (max w h))"

section \<open>Texture\<close>

definition TEXTURE_OPERATION_NONE :: int where "TEXTURE_OPERATION_NONE = 0"
definition TEXTURE_OPERATION_UPLOAD :: int where "TEXTURE_OPERATION_UPLOAD = 1"
definition TEXTURE_OPERATION_UPLOAD_PARTIAL :: int where "TEXTURE_OPERATION_UPLOAD_PARTIAL = 2"
definition TEXTURE_OPERATION_CLEAR_MIPS :: int where "TEXTURE_OPERATION_CLEAR_MIPS = 4"

definition PROPERTY_MIN_FILTER :: int where "PROPERTY_MIN_FILTER = 1"
definition PROPERTY_MAG_FILTER :: int where "PROPERTY_MAG_FILTER = 2"
definition PROPERTY_ALL :: int where "PROPERTY_ALL = 255"

text \<open>
  Modelled from the spec: the \<^verbatim>\<open>Debug\<close> object (core/debug.js) is not among the
  sources. The spec's diagnostic channel reports a failed assertion, a warning or an error
  and lets the caller go on ("warns, does not throw"): each appends its diagnostic to
  \<open>w_diags\<close> and nothing else.
\<close>

definition Debug_assert :: "bool \<Rightarrow> diagnostic \<Rightarrow> world \<Rightarrow> world" where
  "Debug_assert cond d w = (if cond then w else w\<lparr>w_diags := w_diags w @ [d]\<rparr>)"

definition Debug_warn :: "diagnostic \<Rightarrow> world \<Rightarrow> world" where
  "Debug_warn d w = w\<lparr>w_diags := w_diags w @ [d]\<rparr>"

definition Debug_error :: "diagnostic \<Rightarrow> world \<Rightarrow> world" where
  "Debug_error d w = w\<lparr>w_diags := w_diags w @ [d]\<rparr>"

definition try_bind :: "error + 'a \<Rightarrow> ('a \<Rightarrow> error + 'b) \<Rightarrow> error + 'b" where
  "try_bind r f = (case r of Inl e \<Rightarrow> Inl e | Inr x \<Rightarrow> f x)"

definition cubemap :: "texture \<Rightarrow> bool" where
  "cubemap t = (dimension t = TEXTUREDIMENSION_CUBE)"

definition array :: "texture \<Rightarrow> bool" where
  "array t = (dimension t = TEXTUREDIMENSION_2D_ARRAY)"

definition volume :: "texture \<Rightarrow> bool" where
  "volume t = (dimension t = TEXTUREDIMENSION_3D)"

definition depth :: "texture \<Rightarrow> int" where
  "depth t = (if dimension t = TEXTUREDIMENSION_3D then slices t else 1)"

definition pot :: "externals \<Rightarrow> texture \<Rightarrow> bool" where
  "pot U t = (powerOfTwo U (width t) \<and> powerOfTwo U (height t))"

definition gpuSize :: "externals \<Rightarrow> texture \<Rightarrow> int" where
  "gpuSize U t =
     (let mips = (pot U t \<and> mipmaps t \<and> \<not> (compressed t \<or> integerFormat t))
      in calcGpuSize U (width t) (height t) (slices t) (format t) (volume t) mips)"

definition requiredMipLevels :: "texture \<Rightarrow> nat" where
  "requiredMipLevels t =
     (if mipmaps t then calcMipLevelsCount (width t) (height t) (depth t) else 1)"

definition adjustVramSizeTracking :: "texture \<Rightarrow> vram_stats \<Rightarrow> int \<Rightarrow> vram_stats" where
  "adjustVramSizeTracking t v sz =
     (let v1 = v\<lparr>tex := tex v + sz\<rparr>
      in if profilerHint t = TEXHINT_SHADOWMAP then v1\<lparr>texShadow := texShadow v1 + sz\<rparr>
         else if profilerHint t = TEXHINT_ASSET then v1\<lparr>texAsset := texAsset v1 + sz\<rparr>
         else if profilerHint t = TEXHINT_LIGHTMAP then v1\<lparr>texLightmap := texLightmap v1 + sz\<rparr>
         else v1)"

text \<open>\<^verbatim>\<open>WebglTexture.propertyChanged\<close>, \<^verbatim>\<open>loseContext\<close> and \<^verbatim>\<open>destroy\<close>.\<close>

definition webgl_propertyChanged :: "int \<Rightarrow> webgl_texture \<Rightarrow> webgl_texture" where
  "webgl_propertyChanged flag i = i\<lparr>dirtyParameterFlags := dirtyParameterFlags i OR flag\<rparr>"

definition webgl_loseContext :: "webgl_texture \<Rightarrow> webgl_texture" where
  "webgl_loseContext i = i\<lparr>glTexture := False\<rparr>"

definition webgl_destroy :: "world \<Rightarrow> world" where
  "webgl_destroy w =
     (if glTexture (impl (w_tex w))
      then w\<lparr>w_dev := (w_dev w)\<lparr>gl := gl (w_dev w) @ [DeleteTexture]\<rparr>,
             w_tex := (w_tex w)\<lparr>impl := (impl (w_tex w))\<lparr>glTexture := False\<rparr>\<rparr>\<rparr>
      else w)"

text \<open>
  \<^verbatim>\<open>propertyChanged\<close> reads \<^verbatim>\<open>this.device.renderVersion\<close>: on a destroyed texture
  (\<^verbatim>\<open>this.device\<close> is null) that is a TypeError.
\<close>

definition propertyChanged :: "int \<Rightarrow> world \<Rightarrow> error + world" where
  "propertyChanged flag w =
     (let t = w_tex w; t1 = t\<lparr>impl := webgl_propertyChanged flag (impl t)\<rparr>
      in if has_device t
         then Inr (w\<lparr>w_tex := t1\<lparr>renderVersionDirty := renderVersion (w_dev w)\<rparr>\<rparr>)
         else Inl TypeError)"

definition dirtyAll :: "world \<Rightarrow> error + world" where
  "dirtyAll w =
     propertyChanged PROPERTY_ALL
       (w\<lparr>w_tex := (w_tex w)\<lparr>operation := operation (w_tex w) OR TEXTURE_OPERATION_UPLOAD\<rparr>\<rparr>)"

section \<open>WebglTexture\<close>

definition gl_do :: "gl_call \<Rightarrow> world \<Rightarrow> world" where
  "gl_do c w = w\<lparr>w_dev := (w_dev w)\<lparr>gl := gl (w_dev w) @ [c]\<rparr>\<rparr>"

definition setUnpackFlipY :: "bool \<Rightarrow> world \<Rightarrow> world" where
  "setUnpackFlipY b w = w\<lparr>w_dev := (w_dev w)\<lparr>unpackFlipY := b\<rparr>\<rparr>"

definition setUnpackPremultiplyAlpha :: "bool \<Rightarrow> world \<Rightarrow> world" where
  "setUnpackPremultiplyAlpha b w = w\<lparr>w_dev := (w_dev w)\<lparr>unpackPremultiplyAlpha := b\<rparr>\<rparr>"

definition set_glCreated :: "bool \<Rightarrow> world \<Rightarrow> world" where
  "set_glCreated b w = w\<lparr>w_tex := (w_tex w)\<lparr>impl := (impl (w_tex w))\<lparr>glCreated := b\<rparr>\<rparr>\<rparr>"

definition set_size :: "int \<Rightarrow> int \<Rightarrow> world \<Rightarrow> world" where
  "set_size wd ht w = w\<lparr>w_tex := (w_tex w)\<lparr>width := wd, height := ht\<rparr>\<rparr>"

text \<open>
  \<^verbatim>\<open>Math.max(Math.floor(dim * (1 / Math.pow(2, mipLevel))), 1)\<close>: scaling by a power of
  two is exact.
\<close>

definition mipSize :: "int \<Rightarrow> int \<Rightarrow> int" where
  "mipSize baseDim mipLevel =
     max (if 0 \<le> mipLevel then baseDim div 2 ^ nat mipLevel
          else baseDim * 2 ^ nat (- mipLevel)) 1"

text \<open>Truthiness of what \<^verbatim>\<open>Map.get\<close> returned.\<close>

fun truthy :: "level_entry option \<Rightarrow> bool" where
  "truthy None = False"
| "truthy (Some (Single None)) = False"
| "truthy (Some (Single (Some s))) = True"
| "truthy (Some (Slices m)) = True"

text \<open>\<^verbatim>\<open>device._isBrowserInterface(obj)\<close>: the element, when the object is one.\<close>

fun browserInterface :: "level_entry option \<Rightarrow> element option" where
  "browserInterface (Some (Single (Some (Element e)))) = Some e"
| "browserInterface other = None"

text \<open>
  \<^verbatim>\<open>downsampleImage\<close>: the result is a fresh canvas, which is neither an image nor a
  video; its missing \<^verbatim>\<open>videoWidth\<close> is written 0.
\<close>

definition downsampleImage :: "externals \<Rightarrow> element \<Rightarrow> int \<Rightarrow> world \<Rightarrow> element \<times> world" where
  "downsampleImage U img sz w =
     (let srcW = el_width img; srcH = el_height img
      in if srcW > sz \<or> srcH > sz
         then (\<lparr>el_width = scaleFloor U srcW sz (max srcW srcH),
                el_height = scaleFloor U srcH sz (max srcW srcH),
                el_videoWidth = 0, el_videoHeight = 0, el_image = False, el_video = False\<rparr>,
               Debug_warn Warn_Downsample w)
         else (img, w))"

definition initialize :: "world \<Rightarrow> world" where
  "initialize w =
     (let t = w_tex w;
          target = (if cubemap t then TEXTURE_CUBE_MAP
                    else if volume t then TEXTURE_3D
                    else if array t then TEXTURE_2D_ARRAY else TEXTURE_2D);
          w1 = gl_do CreateTexture w;
          w2 = (if format t = PIXELFORMAT_BGRA8 then Debug_error Error_BGRA8 w1 else w1)
      in w2\<lparr>w_tex := (w_tex w2)\<lparr>impl := (impl (w_tex w2))
              \<lparr>glTexture := True, glTarget := Some target, glCreated := False\<rparr>\<rparr>\<rparr>)"

definition uploadTexture2D :: "externals \<Rightarrow> int \<Rightarrow> level_entry option \<Rightarrow> world \<Rightarrow> world" where
  "uploadTexture2D U mipLevel mipObject w =
     (case browserInterface mipObject of
        Some e0 \<Rightarrow>
          (let maxSize = maxTextureSize (w_dev w);
               (e, w1) = (if el_image e0 \<and> (el_width e0 > maxSize \<or> el_height e0 > maxSize)
                          then (let (e', w') = downsampleImage U e0 maxSize w
                                in (e', if mipLevel = 0
                                        then set_size (el_width e') (el_height e') w' else w'))
                          else (e0, w));
               wd = (if el_width e \<noteq> 0 then el_width e else el_videoWidth e);
               ht = (if el_height e \<noteq> 0 then el_height e else el_videoHeight e);
               w2 = setUnpackPremultiplyAlpha (premultiplyAlpha (w_tex w1))
                      (setUnpackFlipY (flipY (w_tex w1)) w1);
               obj = Some (Single (Some (Element e)))
           in if glCreated (impl (w_tex w2)) \<and> width (w_tex w2) = wd \<and> height (w_tex w2) = ht
                 \<and> \<not> el_video e
              then gl_do (TexSubImage2D TEXTURE_2D mipLevel None obj) w2
              else (let w3 = set_glCreated True (gl_do (TexImage2D TEXTURE_2D mipLevel None obj) w2)
                    in if mipLevel = 0 then set_size wd ht w3 else w3))
      | None \<Rightarrow>
          (let t = w_tex w;
               mw = mipSize (width t) mipLevel;
               mh = mipSize (height t) mipLevel
           in if compressed t
              then (if glCreated (impl t) \<and> truthy mipObject
                    then gl_do (CompressedTexSubImage2D TEXTURE_2D mipLevel mw mh mipObject) w
                    else set_glCreated True
                           (gl_do (CompressedTexImage2D TEXTURE_2D mipLevel mw mh mipObject) w))
              else (let w1 = setUnpackPremultiplyAlpha (premultiplyAlpha t) (setUnpackFlipY False w)
                    in if glCreated (impl t) \<and> truthy mipObject
                       then gl_do (TexSubImage2D TEXTURE_2D mipLevel (Some (mw, mh)) mipObject) w1
                       else set_glCreated True
                              (gl_do (TexImage2D TEXTURE_2D mipLevel (Some (mw, mh)) mipObject) w1))))"

definition uploadTexture3D :: "int \<Rightarrow> level_entry option \<Rightarrow> world \<Rightarrow> world" where
  "uploadTexture3D mipLevel mipObject w =
     (let t = w_tex w;
          mw = mipSize (width t) mipLevel;
          mh = mipSize (height t) mipLevel;
          md = mipSize (slices t) mipLevel
      in if compressed t
         then gl_do (CompressedTexImage3D mipLevel mw mh md mipObject) w
         else set_glCreated True
                (gl_do (TexImage3D mipLevel mw mh md mipObject)
                   (setUnpackPremultiplyAlpha (premultiplyAlpha t) (setUnpackFlipY False w))))"

definition uploadTextureCube :: "externals \<Rightarrow> int \<Rightarrow> int \<Rightarrow> pixel_source \<Rightarrow> world \<Rightarrow> world" where
  "uploadTextureCube U mipLevel face faceObject w =
     (case faceObject of
        Element e0 \<Rightarrow>
          (let maxSize = maxCubeMapSize (w_dev w);
               (e, w1) = (if el_image e0 \<and> (el_width e0 > maxSize \<or> el_height e0 > maxSize)
                          then (let (e', w') = downsampleImage U e0 maxSize w
                                in (e', if mipLevel = 0
                                        then set_size (el_width e') (el_height e') w' else w'))
                          else (e0, w));
               w2 = setUnpackPremultiplyAlpha (premultiplyAlpha (w_tex w1)) (setUnpackFlipY False w1);
               obj = Some (Single (Some (Element e)))
           in if glCreated (impl (w_tex w2))
              then gl_do (TexSubImage2D (TEXTURE_CUBE_MAP_POSITIVE_X face) mipLevel None obj) w2
              else gl_do (TexImage2D (TEXTURE_CUBE_MAP_POSITIVE_X face) mipLevel None obj) w2)
      | TypedArray n \<Rightarrow>
          (let t = w_tex w;
               mw = mipSize (width t) mipLevel;
               mh = mipSize (height t) mipLevel;
               obj = Some (Single (Some faceObject))
           in if compressed t
              then (if glCreated (impl t)
                    then gl_do (CompressedTexSubImage2D (TEXTURE_CUBE_MAP_POSITIVE_X face) mipLevel mw mh obj) w
                    else gl_do (CompressedTexImage2D (TEXTURE_CUBE_MAP_POSITIVE_X face) mipLevel mw mh obj) w)
              else (let w1 = setUnpackPremultiplyAlpha (premultiplyAlpha t) (setUnpackFlipY False w)
                    in if glCreated (impl t)
                       then gl_do (TexSubImage2D (TEXTURE_CUBE_MAP_POSITIVE_X face) mipLevel (Some (mw, mh)) obj) w1
                       else gl_do (TexImage2D (TEXTURE_CUBE_MAP_POSITIVE_X face) mipLevel (Some (mw, mh)) obj) w1)))"

definition uploadTextureArray :: "nat \<Rightarrow> int \<Rightarrow> int \<Rightarrow> pixel_source \<Rightarrow> world \<Rightarrow> world" where
  "uploadTextureArray requiredMipLevels' mipLevel slice sliceObject w =
     (let t = w_tex w;
          w1 = (if \<not> glCreated (impl t)
                then set_glCreated True
                       (gl_do (TexStorage3D (int requiredMipLevels') (width t) (height t) (slices t)) w)
                else w);
          mw = mipSize (width t) mipLevel;
          mh = mipSize (height t) mipLevel;
          obj = Some (Single (Some sliceObject))
      in if compressed t
         then gl_do (CompressedTexSubImage3D mipLevel slice mw mh obj) w1
         else gl_do (TexSubImage3D mipLevel slice mw mh obj) w1)"

text \<open>
  \<^verbatim>\<open>mipmapTracking\<close> is an object keyed by slice: an association list.
  \<^verbatim>\<open>generateMipmapsIfNeeded\<close> reads \<^verbatim>\<open>requiredMipLevels\<close> again.
\<close>

definition generateMipmapsIfNeeded :: "(int \<times> int) list \<Rightarrow> world \<Rightarrow> world" where
  "generateMipmapsIfNeeded mipmapTracking w =
     (let t = w_tex w;
          anyLevelMissing = list_ex (\<lambda>(slice, n). n \<noteq> int (requiredMipLevels t)) mipmapTracking
      in if anyLevelMissing \<and> mipmaps t \<and> \<not> compressed t
         then gl_do (GenerateMipmap (glTarget (impl t))) w
         else w)"

text \<open>A \<^verbatim>\<open>for\<close> loop whose body may throw: the first error ends it.\<close>

fun for_each :: "('a \<Rightarrow> 's \<Rightarrow> error + 's) \<Rightarrow> 'a list \<Rightarrow> 's \<Rightarrow> error + 's" where
  "for_each body [] s = Inr s"
| "for_each body (x # xs) s = (case body x s of Inl e \<Rightarrow> Inl e | Inr s' \<Rightarrow> for_each body xs s')"

text \<open>
  The partial path, one dirty slice of an array or cubemap level.
  \<^verbatim>\<open>texture._levels.get(dirtyLevel).get(dirtySlice)\<close> throws when the level is absent
  or is not a Map.
\<close>

definition upload_dirty_slice ::
  "externals \<Rightarrow> nat \<Rightarrow> int \<Rightarrow> int \<Rightarrow> (int \<times> int) list \<times> world \<Rightarrow> error + (int \<times> int) list \<times> world" where
  "upload_dirty_slice U rml dirtyLevel dirtySlice st =
     (let (tr, w) = st;
          tr1 = (if dirtyLevel = 0 then AList.update dirtySlice 0 tr else tr)
      in case map_of (levels (w_tex w)) dirtyLevel of
           Some (Slices m) \<Rightarrow>
             (case map_of m dirtySlice of
                Some (Some sliceObject) \<Rightarrow>
                  (let tr2 = (case map_of tr1 dirtySlice of
                                Some n \<Rightarrow> AList.update dirtySlice (n + 1) tr1
                              | None \<Rightarrow> tr1)
                   in Inr (tr2,
                        (case dimension (w_tex w) of
                           TEXTUREDIMENSION_CUBE \<Rightarrow>
                             uploadTextureCube U dirtyLevel dirtySlice sliceObject w
                         | TEXTUREDIMENSION_2D_ARRAY \<Rightarrow>
                             uploadTextureArray rml dirtyLevel dirtySlice sliceObject w
                         | _ \<Rightarrow> w)))
              | _ \<Rightarrow> Inr (tr1, w))
         | _ \<Rightarrow> Inl TypeError)"

text \<open>
  One entry of \<^verbatim>\<open>_dirtyLevels\<close>. Iterating a boolean with \<^verbatim>\<open>for ... of\<close> throws.
\<close>

definition upload_dirty_level ::
  "externals \<Rightarrow> nat \<Rightarrow> int \<times> dirty_entry \<Rightarrow> (int \<times> int) list \<times> world \<Rightarrow> error + (int \<times> int) list \<times> world" where
  "upload_dirty_level U rml entry st =
     (let (dirtyLevel, dirtySlices) = entry; (tr, w) = st; t = w_tex w
      in if array t \<or> cubemap t
         then (case dirtySlices of
                 DirtyFlag b \<Rightarrow> Inl TypeError
               | DirtySlices ss \<Rightarrow> for_each (upload_dirty_slice U rml dirtyLevel) ss (tr, w))
         else (let mipObject = map_of (levels t) dirtyLevel
               in if truthy mipObject
                  then (let tr1 = (if dirtyLevel = 0 then AList.update 0 0 tr else tr);
                            w1 = (case dimension t of
                                    TEXTUREDIMENSION_2D \<Rightarrow> uploadTexture2D U dirtyLevel mipObject w
                                  | TEXTUREDIMENSION_3D \<Rightarrow> uploadTexture3D dirtyLevel mipObject w
                                  | _ \<Rightarrow> w);
                            tr2 = (case map_of tr1 0 of
                                     Some n \<Rightarrow> AList.update 0 (n + 1) tr1
                                   | None \<Rightarrow> tr1)
                        in Inr (tr2, w1))
                  else Inr (tr, w)))"

text \<open>The full path: the slices of one level of a cubemap or an array.\<close>

definition upload_full_slice ::
  "externals \<Rightarrow> nat \<Rightarrow> int \<Rightarrow> (int \<times> pixel_source option) list \<Rightarrow> int
     \<Rightarrow> bool \<times> bool \<times> world \<Rightarrow> bool \<times> bool \<times> world" where
  "upload_full_slice U rml mipLevel mipObject slice st =
     (let (anyUploads, anyLevelMissing, w) = st
      in case map_of mipObject slice of
           Some (Some sliceObject) \<Rightarrow>
             (True, anyLevelMissing,
              (if dimension (w_tex w) = TEXTUREDIMENSION_CUBE
               then uploadTextureCube U mipLevel slice sliceObject w
               else uploadTextureArray rml mipLevel slice sliceObject w))
         | _ \<Rightarrow> (anyUploads, True, w))"

text \<open>
  One turn of the loop over \<^verbatim>\<open>mipLevel\<close>, the \<^verbatim>\<open>generateMipmap\<close> test at its end
  included. \<^verbatim>\<open>mipObject.get(slice)\<close> throws when the level object is not a Map and the
  slice loop is entered.
\<close>

definition upload_full_level ::
  "externals \<Rightarrow> nat \<Rightarrow> int \<Rightarrow> bool \<times> bool \<times> world \<Rightarrow> error + bool \<times> bool \<times> world" where
  "upload_full_level U rml mipLevel st =
     (let (anyUploads, anyLevelMissing, w) = st;
          t = w_tex w;
          mipObject = map_of (levels t) mipLevel;
          sliced = (if truthy mipObject
                    then (case mipObject of
                            Some (Slices m) \<Rightarrow>
                              Inr (fold (upload_full_slice U rml mipLevel m) [0..slices t - 1] st)
                          | _ \<Rightarrow> if 0 < slices t then Inl TypeError else Inr st)
                    else Inr (anyUploads, True, w))
      in try_bind
           (case dimension t of
              TEXTUREDIMENSION_2D \<Rightarrow>
                Inr (True, anyLevelMissing, uploadTexture2D U mipLevel mipObject w)
            | TEXTUREDIMENSION_3D \<Rightarrow>
                Inr (True, anyLevelMissing, uploadTexture3D mipLevel mipObject w)
            | TEXTUREDIMENSION_CUBE \<Rightarrow> sliced
            | TEXTUREDIMENSION_2D_ARRAY \<Rightarrow> sliced)
           (\<lambda>(anyUploads', anyLevelMissing', w1).
              Inr (anyUploads', anyLevelMissing',
                   (if anyUploads' \<and> anyLevelMissing' \<and> mipmaps (w_tex w1) \<and> \<not> compressed (w_tex w1)
                    then gl_do (GenerateMipmap (glTarget (impl (w_tex w1)))) w1
                    else w1))))"

definition webgl_upload :: "externals \<Rightarrow> world \<Rightarrow> error + world" where
  "webgl_upload U w =
     (let w0 = Debug_assert (has_device (w_tex w)) Assert_Destroyed w;
          t = w_tex w0
      in if operation t = TEXTURE_OPERATION_NONE then Inr w0
         else
           (let rml = requiredMipLevels t
            in try_bind
                 (if operation t AND TEXTURE_OPERATION_UPLOAD_PARTIAL \<noteq> 0 \<or> dirtyLevels t \<noteq> []
                  then try_bind (for_each (upload_dirty_level U rml) (dirtyLevels t) ([], w0))
                         (\<lambda>(mipmapTracking, w1). Inr (generateMipmapsIfNeeded mipmapTracking w1))
                  else if operation t AND TEXTURE_OPERATION_UPLOAD \<noteq> 0
                  then try_bind (for_each (upload_full_level U rml) (map int [0..<rml]) (False, False, w0))
                         (\<lambda>(anyUploads, anyLevelMissing, w1). Inr w1)
                  else Inr w0)
                 (\<lambda>w1.
                    let t1 = w_tex w1;
                        v1 = (if gpuSize_recorded t1 \<noteq> 0
                              then adjustVramSizeTracking t1 (vram (w_dev w1)) (- gpuSize_recorded t1)
                              else vram (w_dev w1));
                        t2 = t1\<lparr>gpuSize_recorded := gpuSize U t1\<rparr>;
                        v2 = adjustVramSizeTracking t2 v1 (gpuSize_recorded t2)
                    in Inr (w1\<lparr>w_dev := (w_dev w1)\<lparr>vram := v2\<rparr>,
                               w_tex := t2\<lparr>operation := TEXTURE_OPERATION_NONE, dirtyLevels := [],
                                           impl := (impl t2)\<lparr>glCreated := True\<rparr>\<rparr>\<rparr>))))"

text \<open>
  The two upload loops of \<^verbatim>\<open>upload\<close> on their own: everything between the test of
  the operation bitmask and the update of the VRAM statistics (\<open>webgl_upload_unfold\<close>
  below shows that \<open>webgl_upload\<close> is these loops followed by the bookkeeping).
\<close>

definition upload_paths :: "externals \<Rightarrow> world \<Rightarrow> error + world" where
  "upload_paths U w0 =
     (let t = w_tex w0; rml = requiredMipLevels t
      in if operation t AND TEXTURE_OPERATION_UPLOAD_PARTIAL \<noteq> 0 \<or> dirtyLevels t \<noteq> []
         then try_bind (for_each (upload_dirty_level U rml) (dirtyLevels t) ([], w0))
                (\<lambda>(mipmapTracking, w1). Inr (generateMipmapsIfNeeded mipmapTracking w1))
         else if operation t AND TEXTURE_OPERATION_UPLOAD \<noteq> 0
         then try_bind (for_each (upload_full_level U rml) (map int [0..<rml]) (False, False, w0))
                (\<lambda>(anyUploads, anyLevelMissing, w1). Inr w1)
         else Inr w0)"

text \<open>
  \<^verbatim>\<open>uploadImmediate(device, texture, immediate)\<close> is called with \<^verbatim>\<open>this.device\<close>; on a
  destroyed texture that is null and \<^verbatim>\<open>device.gl\<close> or \<^verbatim>\<open>device.bindTexture\<close> throws.
  \<^verbatim>\<open>bindTexture\<close> is a device method outside the sources; the call is logged.
\<close>

definition uploadImmediate :: "externals \<Rightarrow> bool \<Rightarrow> world \<Rightarrow> error + world" where
  "uploadImmediate U immediate w =
     (if immediate
      then (if \<not> has_device (w_tex w) then Inl TypeError
            else (let w1 = (if \<not> glTexture (impl (w_tex w)) then initialize w else w);
                      w2 = gl_do (BindTexture (glTarget (impl (w_tex w1)))) w1
                  in webgl_upload U w2))
      else Inr w)"

section \<open>Texture: upload, lock, unlock, setSource\<close>

definition upload :: "externals \<Rightarrow> bool \<Rightarrow> world \<Rightarrow> error + world" where
  "upload U immediate w =
     uploadImmediate U immediate
       (w\<lparr>w_tex := (w_tex w)\<lparr>operation := operation (w_tex w) OR TEXTURE_OPERATION_UPLOAD\<rparr>\<rparr>)"

text \<open>
  \<^verbatim>\<open>x >> n\<close> of JavaScript: the left operand is taken as a signed 32-bit integer and
  the shift count modulo 32.
\<close>

definition toInt32 :: "int \<Rightarrow> int" where
  "toInt32 x = (x + 2 ^ 31) mod 2 ^ 32 - 2 ^ 31"

definition jsShr :: "int \<Rightarrow> int \<Rightarrow> int" where
  "jsShr x n = toInt32 x div 2 ^ nat (n mod 32)"

record lock_options =
  lock_level :: "int option"
  lock_slice :: "int option"
  lock_mode :: "lockmode option"

definition createSlice :: "externals \<Rightarrow> int \<Rightarrow> texture \<Rightarrow> pixel_source" where
  "createSlice U lvl t =
     (let wd = max 1 (jsShr (width t) lvl);
          ht = max 1 (jsShr (height t) lvl);
          dp = max 1 (jsShr (depth t) lvl)
      in TypedArray (calcLevelGpuSize U wd ht dp (format t)))"

text \<open>
  \<^verbatim>\<open>getCubemapOrArraySlice\<close>: the level Map is created when the level is missing, the
  slice buffer when the slice is missing, and an empty Set of dirty slices when the level
  has no truthy dirty entry. \<^verbatim>\<open>levelMap.get\<close> throws when the level holds an object
  that is not a Map. The slice index is not added to the Set.
\<close>

definition getCubemapOrArraySlice :: "externals \<Rightarrow> int \<Rightarrow> int \<Rightarrow> texture \<Rightarrow> error + texture" where
  "getCubemapOrArraySlice U lvl slice t =
     (let lev = map_of (levels t) lvl
      in if truthy lev \<and> (case lev of Some (Slices m) \<Rightarrow> False | _ \<Rightarrow> True)
         then Inl TypeError
         else
           (let levelMap = (case lev of Some (Slices m) \<Rightarrow> m | _ \<Rightarrow> []);
                levelMap1 = (case map_of levelMap slice of
                               Some (Some s) \<Rightarrow> levelMap
                             | _ \<Rightarrow> AList.update slice (Some (createSlice U lvl t)) levelMap);
                dirty1 = (case map_of (dirtyLevels t) lvl of
                            None \<Rightarrow> AList.update lvl (DirtySlices []) (dirtyLevels t)
                          | Some (DirtyFlag False) \<Rightarrow> AList.update lvl (DirtySlices []) (dirtyLevels t)
                          | _ \<Rightarrow> dirtyLevels t)
            in Inr (t\<lparr>levels := AList.update lvl (Slices levelMap1) (levels t),
                      dirtyLevels := dirty1\<rparr>)))"

definition getSimpleLevel :: "externals \<Rightarrow> int \<Rightarrow> texture \<Rightarrow> texture" where
  "getSimpleLevel U lvl t =
     (let lev = map_of (levels t) lvl;
          levels1 = (if truthy lev then levels t
                     else AList.update lvl (Single (Some (createSlice U lvl t))) (levels t));
          dirty1 = (case map_of (dirtyLevels t) lvl of
                      None \<Rightarrow> AList.update lvl (DirtyFlag True) (dirtyLevels t)
                    | _ \<Rightarrow> dirtyLevels t)
      in t\<lparr>levels := levels1, dirtyLevels := dirty1\<rparr>)"

definition lock :: "externals \<Rightarrow> lock_options \<Rightarrow> world \<Rightarrow> error + world" where
  "lock U options w =
     (let lvl = (case lock_level options of None \<Rightarrow> 0 | Some l \<Rightarrow> l);
          slice = (case lock_slice options of None \<Rightarrow> 0 | Some s \<Rightarrow> s);
          lmode = (case lock_mode options of None \<Rightarrow> TEXTURELOCK_WRITE | Some m \<Rightarrow> m);
          t = w_tex w;
          w1 = Debug_assert (lockedMode t = TEXTURELOCK_NONE) Assert_AlreadyLocked w;
          w2 = Debug_assert (lmode = TEXTURELOCK_READ \<or> lmode = TEXTURELOCK_WRITE) Assert_LockMode w1;
          w3 = Debug_assert (slice = 0 \<and> \<not> (cubemap t \<or> array t)) Assert_LockSlice w2;
          w4 = Debug_assert (slice \<ge> 0 \<and> slice < slices t) Assert_SliceBounds w3;
          t1 = t\<lparr>lockedMode := lmode\<rparr>
      in try_bind
           (if cubemap t1 \<or> array t1 then getCubemapOrArraySlice U lvl slice t1
            else Inr (getSimpleLevel U lvl t1))
           (\<lambda>t2. Inr (w4\<lparr>w_tex :=
                    t2\<lparr>operation := operation t2 OR TEXTURE_OPERATION_UPLOAD_PARTIAL\<rparr>\<rparr>)))"

definition unlock :: "externals \<Rightarrow> bool \<Rightarrow> world \<Rightarrow> error + world" where
  "unlock U immediate w =
     (let w1 = (if lockedMode (w_tex w) = TEXTURELOCK_NONE then Debug_warn Warn_UnlockNotLocked w else w)
      in try_bind
           (if lockedMode (w_tex w1) = TEXTURELOCK_WRITE then upload U immediate w1 else Inr w1)
           (\<lambda>w2. Inr (w2\<lparr>w_tex := (w_tex w2)\<lparr>lockedMode := TEXTURELOCK_NONE\<rparr>\<rparr>)))"

text \<open>
  The argument of \<^verbatim>\<open>setSource\<close>: one element, or an array whose slots may be empty
  or hold a typed array (which has no \<^verbatim>\<open>width\<close>).
\<close>

datatype source_arg = SourceElement element | SourceArray "pixel_source option list"

fun src_width :: "pixel_source \<Rightarrow> int option" where
  "src_width (Element e) = Some (el_width e)"
| "src_width (TypedArray n) = None"

fun src_height :: "pixel_source \<Rightarrow> int option" where
  "src_height (Element e) = Some (el_height e)"
| "src_height (TypedArray n) = None"

fun source_at :: "source_arg \<Rightarrow> int \<Rightarrow> pixel_source option" where
  "source_at (SourceElement e) i = None"
| "source_at (SourceArray xs) i = (if 0 \<le> i \<and> nat i < length xs then xs ! nat i else None)"

fun isBrowserInterface :: "pixel_source \<Rightarrow> bool" where
  "isBrowserInterface (Element e) = True"
| "isBrowserInterface (TypedArray n) = False"

text \<open>
  The loop over the faces: \<open>Inr True\<close> when a face makes the source invalid (the loop
  breaks), \<open>Inr False\<close> when every face passes. \<^verbatim>\<open>this.device._isBrowserInterface\<close> is
  reached only after the three earlier tests, and throws on a destroyed texture.
\<close>

fun check_faces :: "bool \<Rightarrow> source_arg \<Rightarrow> int \<Rightarrow> int \<Rightarrow> int list \<Rightarrow> error + bool" where
  "check_faces dev source wd ht [] = Inr False"
| "check_faces dev source wd ht (i # rest) =
     (case source_at source i of
        None \<Rightarrow> Inr True
      | Some face \<Rightarrow>
          if src_width face \<noteq> Some wd then Inr True
          else if src_height face \<noteq> Some ht then Inr True
          else if \<not> dev then Inl TypeError
          else if \<not> isBrowserInterface face then Inr True
          else check_faces dev source wd ht rest)"

definition setSource :: "externals \<Rightarrow> source_arg \<Rightarrow> bool \<Rightarrow> world \<Rightarrow> error + world" where
  "setSource U source immediate w =
     (let t0 = (w_tex w)\<lparr>levels := []\<rparr>
      in try_bind
           (if cubemap t0 \<or> array t0
            then (case source_at source 0 of
                    Some s0 \<Rightarrow>
                      (let wd = (case src_width s0 of Some x \<Rightarrow> x | None \<Rightarrow> 0);
                           ht = (case src_height s0 of Some x \<Rightarrow> x | None \<Rightarrow> 0)
                       in try_bind (check_faces (has_device t0) source wd ht [0..slices t0 - 1])
                            (\<lambda>inv. Inr (inv, wd, ht)))
                  | None \<Rightarrow> Inr (True, 0, 0))
            else if \<not> has_device t0 then Inl TypeError
            else (case source of
                    SourceElement e \<Rightarrow> Inr (False, el_width e, el_height e)
                  | SourceArray xs \<Rightarrow> Inr (True, 0, 0)))
           (\<lambda>(inv, wd, ht).
              let t1 = (if inv then t0\<lparr>width := 4, height := 4, levels := []\<rparr>
                        else t0\<lparr>width := wd, height := ht,
                                levels := AList.update 0
                                  (case source of
                                     SourceArray xs \<Rightarrow> Slices (zip (map int [0..<length xs]) xs)
                                   | SourceElement e \<Rightarrow> Single (Some (Element e)))
                                  (levels t0)\<rparr>)
              in if invalid t1 \<noteq> inv \<or> \<not> inv
                 then upload U immediate (w\<lparr>w_tex := t1\<lparr>invalid := inv\<rparr>\<rparr>)
                 else Inr (w\<lparr>w_tex := t1\<rparr>)))"

section \<open>Texture: property setters, destroy, resize, loseContext\<close>

definition set_minFilter :: "externals \<Rightarrow> filter \<Rightarrow> world \<Rightarrow> error + world" where
  "set_minFilter U v w =
     (let t = w_tex w
      in if minFilter t \<noteq> v
         then (if isIntegerPixelFormat U (format t) then Inr (Debug_warn Warn_MinFilterInteger w)
               else propertyChanged PROPERTY_MIN_FILTER (w\<lparr>w_tex := t\<lparr>minFilter := v\<rparr>\<rparr>))
         else Inr w)"

definition set_magFilter :: "externals \<Rightarrow> filter \<Rightarrow> world \<Rightarrow> error + world" where
  "set_magFilter U v w =
     (let t = w_tex w
      in if magFilter t \<noteq> v
         then (if isIntegerPixelFormat U (format t) then Inr (Debug_warn Warn_MagFilterInteger w)
               else propertyChanged PROPERTY_MAG_FILTER (w\<lparr>w_tex := t\<lparr>magFilter := v\<rparr>\<rparr>))
         else Inr w)"

text \<open>
  The \<^verbatim>\<open>mipmaps\<close> setter. The update of \<^verbatim>\<open>_operation\<close> and the call of
  \<^verbatim>\<open>dirtyAll\<close> stand after the three-way test, not inside its last branch.
\<close>

definition set_mipmaps :: "externals \<Rightarrow> bool \<Rightarrow> world \<Rightarrow> error + world" where
  "set_mipmaps U v w =
     (let t = w_tex w
      in if mipmaps t \<noteq> v
         then (if \<not> has_device t then Inl TypeError
               else
                 (let w1 = (if isWebGPU (w_dev w) then Debug_warn Warn_MipmapsWebGPU w
                            else if isIntegerPixelFormat U (format t) then Debug_warn Warn_MipmapsInteger w
                            else w\<lparr>w_tex := t\<lparr>mipmaps := v\<rparr>\<rparr>);
                      t1 = w_tex w1;
                      op1 = (if v then operation t1 AND NOT TEXTURE_OPERATION_CLEAR_MIPS
                             else operation t1 OR TEXTURE_OPERATION_CLEAR_MIPS)
                  in dirtyAll (w1\<lparr>w_tex := t1\<lparr>operation := op1\<rparr>\<rparr>)))
         else Inr w)"

definition set_flipY :: "bool \<Rightarrow> world \<Rightarrow> world" where
  "set_flipY v w =
     (let t = w_tex w
      in if flipY t \<noteq> v
         then w\<lparr>w_tex := t\<lparr>flipY := v, operation := operation t OR TEXTURE_OPERATION_UPLOAD\<rparr>\<rparr>
         else w)"

definition set_premultiplyAlpha :: "bool \<Rightarrow> world \<Rightarrow> world" where
  "set_premultiplyAlpha v w =
     (let t = w_tex w
      in if premultiplyAlpha t \<noteq> v
         then w\<lparr>w_tex := t\<lparr>premultiplyAlpha := v,
                             operation := operation t OR TEXTURE_OPERATION_UPLOAD\<rparr>\<rparr>
         else w)"

text \<open>
  \<^verbatim>\<open>destroy\<close>: everything happens under \<^verbatim>\<open>if (device)\<close>, and the last statement
  sets \<^verbatim>\<open>this.device\<close> to null. \<^verbatim>\<open>indexOf\<close> and \<^verbatim>\<open>splice\<close> remove the first
  occurrence of the texture from \<^verbatim>\<open>device.textures\<close>.
\<close>

definition destroy :: "world \<Rightarrow> world" where
  "destroy w =
     (if has_device (w_tex w)
      then (let w1 = w\<lparr>w_dev := (w_dev w)\<lparr>textures := remove1 (tex_id (w_tex w)) (textures (w_dev w))\<rparr>\<rparr>;
                w2 = webgl_destroy w1;
                t = w_tex w2;
                v = adjustVramSizeTracking t (vram (w_dev w2)) (- gpuSize_recorded t)
            in w2\<lparr>w_dev := (w_dev w2)\<lparr>vram := v\<rparr>,
                  w_tex := t\<lparr>levels := [], has_device := False\<rparr>\<rparr>)
      else w)"

text \<open>\<^verbatim>\<open>device.createTextureImpl(texture)\<close>: a new \<^verbatim>\<open>WebglTexture\<close>.\<close>

definition createTextureImpl :: webgl_texture where
  "createTextureImpl =
     \<lparr>glTexture = False, glTarget = None, glCreated = False, dirtyParameterFlags = 0\<rparr>"

definition resize :: "int \<Rightarrow> int \<Rightarrow> int option \<Rightarrow> world \<Rightarrow> error + world" where
  "resize wd ht sl w =
     (if \<not> has_device (w_tex w) then Inl TypeError
      else (let t = w_tex w;
                v = adjustVramSizeTracking t (vram (w_dev w)) (- gpuSize_recorded t);
                w1 = webgl_destroy (w\<lparr>w_dev := (w_dev w)\<lparr>vram := v\<rparr>\<rparr>);
                t1 = (w_tex w1)\<lparr>width := wd, height := ht,
                                slices := (case sl of None \<Rightarrow> 1 | Some n \<Rightarrow> n),
                                impl := createTextureImpl\<rparr>
            in dirtyAll (w1\<lparr>w_tex := t1\<rparr>)))"

definition loseContext :: "world \<Rightarrow> error + world" where
  "loseContext w =
     dirtyAll (w\<lparr>w_tex := (w_tex w)\<lparr>impl := webgl_loseContext (impl (w_tex w))\<rparr>\<rparr>)"

section \<open>Texture: the constructor\<close>

datatype level_arg = LevelObject "pixel_source option" | LevelArray "pixel_source option list"

record options =
  opt_width :: "int option"
  opt_height :: "int option"
  opt_slices :: "int option"
  opt_dimension :: "dimension option"
  opt_array :: bool
  opt_cubemap :: bool
  opt_volume :: bool
  opt_format :: "pixelformat option"
  opt_mipmaps :: "bool option"
  opt_minFilter :: "filter option"
  opt_magFilter :: "filter option"
  opt_flipY :: "bool option"
  opt_premultiplyAlpha :: "bool option"
  opt_profilerHint :: "texhint option"
  opt_levels :: "level_arg list option"
  opt_immediate :: "bool option"

text \<open>One turn of the loop over \<^verbatim>\<open>options.levels\<close>.\<close>

definition ingest_level :: "int \<times> level_arg \<Rightarrow> world \<Rightarrow> world" where
  "ingest_level entry w =
     (let (l, lev) = entry
      in case lev of
           LevelArray xs \<Rightarrow>
             (let t = w_tex w;
                  w1 = Debug_assert (array t \<or> cubemap t) Assert_LevelsNotArray w;
                  w2 = Debug_assert (int (length xs) = slices t) Assert_LevelsSliceCount w1
              in w2\<lparr>w_tex := t\<lparr>levels :=
                      AList.update l (Slices (zip (map int [0..<length xs]) xs)) (levels t)\<rparr>\<rparr>)
         | LevelObject x \<Rightarrow>
             w\<lparr>w_tex := (w_tex w)\<lparr>levels := AList.update l (Single x) (levels (w_tex w))\<rparr>\<rparr>)"

text \<open>
  \<open>new_id\<close> is the value of the module counter \<^verbatim>\<open>id\<close>. Widths, heights and slice
  counts are integers, on which \<^verbatim>\<open>Math.floor\<close> is the identity and the three integer
  assertions hold.
\<close>

definition Texture_constructor :: "externals \<Rightarrow> device \<Rightarrow> nat \<Rightarrow> options \<Rightarrow> error + world" where
  "Texture_constructor U graphicsDevice new_id options =
     (let dim0 = (case opt_dimension options of None \<Rightarrow> TEXTUREDIMENSION_2D | Some d \<Rightarrow> d);
          dim1 = (if opt_array options then TEXTUREDIMENSION_2D_ARRAY else dim0);
          dim2 = (if opt_cubemap options then TEXTUREDIMENSION_CUBE else dim1);
          dim3 = (if opt_volume options then TEXTUREDIMENSION_3D else dim2);
          sl = (case opt_slices options of
                  None \<Rightarrow> (if dim3 = TEXTUREDIMENSION_CUBE then 6 else 1)
                | Some n \<Rightarrow> n);
          fmt = (case opt_format options of None \<Rightarrow> PIXELFORMAT_RGBA8 | Some f \<Rightarrow> f);
          mm = (case opt_mipmaps options of None \<Rightarrow> True | Some b \<Rightarrow> b);
          minF = (case opt_minFilter options of None \<Rightarrow> FILTER_LINEAR_MIPMAP_LINEAR | Some f \<Rightarrow> f);
          magF = (case opt_magFilter options of None \<Rightarrow> FILTER_LINEAR | Some f \<Rightarrow> f);
          integer = isIntegerPixelFormat U fmt;
          t = \<lparr>gpuSize_recorded = 0, tex_id = new_id, invalid = False,
               lockedMode = TEXTURELOCK_NONE, renderVersionDirty = 0, dirtyLevels = [],
               operation = TEXTURE_OPERATION_NONE, levels = [], has_device = True,
               dimension = dim3,
               width = (case opt_width options of None \<Rightarrow> 4 | Some x \<Rightarrow> x),
               height = (case opt_height options of None \<Rightarrow> 4 | Some x \<Rightarrow> x),
               slices = sl, format = fmt,
               mipmaps = (if integer then False else mm),
               minFilter = (if integer then FILTER_NEAREST else minF),
               magFilter = (if integer then FILTER_NEAREST else magF),
               compressed = isCompressedPixelFormat U fmt, integerFormat = integer,
               flipY = (case opt_flipY options of None \<Rightarrow> False | Some b \<Rightarrow> b),
               premultiplyAlpha = (case opt_premultiplyAlpha options of None \<Rightarrow> False | Some b \<Rightarrow> b),
               impl = createTextureImpl,
               profilerHint = (case opt_profilerHint options of None \<Rightarrow> TEXHINT_NONE | Some h \<Rightarrow> h)\<rparr>;
          w0 = Debug_assert (if dim3 = TEXTUREDIMENSION_CUBE then sl = 6 else True) Assert_CubeSlices
                 \<lparr>w_dev = graphicsDevice, w_tex = t, w_diags = []\<rparr>
      in try_bind (dirtyAll w0)
           (\<lambda>w1.
              let w2 = (case opt_levels options of
                          None \<Rightarrow> w1
                        | Some ls \<Rightarrow> fold ingest_level (zip (map int [0..<length ls]) ls) w1)
              in try_bind
                   (if levels (w_tex w2) \<noteq> []
                    then upload U (case opt_immediate options of None \<Rightarrow> False | Some b \<Rightarrow> b) w2
                    else Inr w2)
                   (\<lambda>w3. Inr (w3\<lparr>w_dev := (w_dev w3)
                            \<lparr>textures := textures (w_dev w3) @ [tex_id (w_tex w3)]\<rparr>\<rparr>))))"

text \<open>
  Two parts of the constructor on their own, for the proofs: the fields as the
  constructor has set them when it calls \<^verbatim>\<open>createTextureImpl\<close>, and the loop over
  \<^verbatim>\<open>options.levels\<close> (\<open>Texture_constructor_unfold\<close> below puts the constructor together
  from them).
\<close>

definition constructed_texture :: "externals \<Rightarrow> nat \<Rightarrow> options \<Rightarrow> texture" where
  "constructed_texture U new_id options =
     (let dim0 = (case opt_dimension options of None \<Rightarrow> TEXTUREDIMENSION_2D | Some d \<Rightarrow> d);
          dim1 = (if opt_array options then TEXTUREDIMENSION_2D_ARRAY else dim0);
          dim2 = (if opt_cubemap options then TEXTUREDIMENSION_CUBE else dim1);
          dim3 = (if opt_volume options then TEXTUREDIMENSION_3D else dim2);
          sl = (case opt_slices options of
                  None \<Rightarrow> (if dim3 = TEXTUREDIMENSION_CUBE then 6 else 1)
                | Some n \<Rightarrow> n);
          fmt = (case opt_format options of None \<Rightarrow> PIXELFORMAT_RGBA8 | Some f \<Rightarrow> f);
          mm = (case opt_mipmaps options of None \<Rightarrow> True | Some b \<Rightarrow> b);
          minF = (case opt_minFilter options of None \<Rightarrow> FILTER_LINEAR_MIPMAP_LINEAR | Some f \<Rightarrow> f);
          magF = (case opt_magFilter options of None \<Rightarrow> FILTER_LINEAR | Some f \<Rightarrow> f);
          integer = isIntegerPixelFormat U fmt
      in \<lparr>gpuSize_recorded = 0, tex_id = new_id, invalid = False,
          lockedMode = TEXTURELOCK_NONE, renderVersionDirty = 0, dirtyLevels = [],
          operation = TEXTURE_OPERATION_NONE, levels = [], has_device = True,
          dimension = dim3,
          width = (case opt_width options of None \<Rightarrow> 4 | Some x \<Rightarrow> x),
          height = (case opt_height options of None \<Rightarrow> 4 | Some x \<Rightarrow> x),
          slices = sl, format = fmt,
          mipmaps = (if integer then False else mm),
          minFilter = (if integer then FILTER_NEAREST else minF),
          magFilter = (if integer then FILTER_NEAREST else magF),
          compressed = isCompressedPixelFormat U fmt, integerFormat = integer,
          flipY = (case opt_flipY options of None \<Rightarrow> False | Some b \<Rightarrow> b),
          premultiplyAlpha = (case opt_premultiplyAlpha options of None \<Rightarrow> False | Some b \<Rightarrow> b),
          impl = createTextureImpl,
          profilerHint = (case opt_profilerHint options of None \<Rightarrow> TEXHINT_NONE | Some h \<Rightarrow> h)\<rparr>)"

definition ingest_levels :: "options \<Rightarrow> world \<Rightarrow> world" where
  "ingest_levels options w =
     (case opt_levels options of
        None \<Rightarrow> w
      | Some ls \<Rightarrow> fold ingest_level (zip (map int [0..<length ls]) ls) w)"

text \<open>
  Two parts of \<^verbatim>\<open>setSource\<close> on their own, for the proofs: the validation, which yields
  the \<^verbatim>\<open>invalid\<close> flag with the width and height read from the source, and the
  assignment of size and level 0 that follows it (\<open>setSource_unfold\<close> below puts
  \<open>setSource\<close> together from them).
\<close>

definition checkSource :: "source_arg \<Rightarrow> texture \<Rightarrow> error + bool \<times> int \<times> int" where
  "checkSource source t0 =
     (if cubemap t0 \<or> array t0
      then (case source_at source 0 of
              Some s0 \<Rightarrow>
                (let wd = (case src_width s0 of Some x \<Rightarrow> x | None \<Rightarrow> 0);
                     ht = (case src_height s0 of Some x \<Rightarrow> x | None \<Rightarrow> 0)
                 in try_bind (check_faces (has_device t0) source wd ht [0..slices t0 - 1])
                      (\<lambda>inv. Inr (inv, wd, ht)))
            | None \<Rightarrow> Inr (True, 0, 0))
      else if \<not> has_device t0 then Inl TypeError
      else (case source of
              SourceElement e \<Rightarrow> Inr (False, el_width e, el_height e)
            | SourceArray xs \<Rightarrow> Inr (True, 0, 0)))"

definition source_level :: "source_arg \<Rightarrow> level_entry" where
  "source_level source =
     (case source of
        SourceArray xs \<Rightarrow> Slices (zip (map int [0..<length xs]) xs)
      | SourceElement e \<Rightarrow> Single (Some (Element e)))"

definition assignSource :: "source_arg \<Rightarrow> bool \<times> int \<times> int \<Rightarrow> texture \<Rightarrow> texture" where
  "assignSource source r t0 =
     (let (inv, wd, ht) = r
      in if inv then t0\<lparr>width := 4, height := 4, levels := []\<rparr>
         else t0\<lparr>width := wd, height := ht,
                 levels := AList.update 0 (source_level source) (levels t0)\<rparr>)"

text \<open>
  The diagnostics of \<^verbatim>\<open>lock\<close>, one per failed assertion, in the order of the
  assertions.
\<close>

definition lock_diagnostics :: "lock_options \<Rightarrow> texture \<Rightarrow> diagnostic list" where
  "lock_diagnostics options t =
     (let slice = (case lock_slice options of None \<Rightarrow> 0 | Some s \<Rightarrow> s);
          lmode = (case lock_mode options of None \<Rightarrow> TEXTURELOCK_WRITE | Some m \<Rightarrow> m)
      in (if lockedMode t = TEXTURELOCK_NONE then [] else [Assert_AlreadyLocked])
         @ (if lmode = TEXTURELOCK_READ \<or> lmode = TEXTURELOCK_WRITE then [] else [Assert_LockMode])
         @ (if slice = 0 \<and> \<not> (cubemap t \<or> array t) then [] else [Assert_LockSlice])
         @ (if slice \<ge> 0 \<and> slice < slices t then [] else [Assert_SliceBounds]))"

section \<open>Sequences of operations\<close>

text \<open>
  The operations a caller can apply to a live texture, and a run of them in order; the
  first TypeError ends the run. \<open>Op_webgl_upload\<close> is the backend upload called on its
  own, as the device does when it flushes a deferred upload.
\<close>

datatype texture_op =
  Op_lock lock_options
| Op_unlock bool
| Op_setSource source_arg bool
| Op_upload bool
| Op_webgl_upload
| Op_minFilter filter
| Op_magFilter filter
| Op_mipmaps bool
| Op_flipY bool
| Op_premultiplyAlpha bool
| Op_loseContext
| Op_destroy
| Op_resize int int "int option"

fun apply_op :: "externals \<Rightarrow> texture_op \<Rightarrow> world \<Rightarrow> error + world" where
  "apply_op U (Op_lock options) w = lock U options w"
| "apply_op U (Op_unlock immediate) w = unlock U immediate w"
| "apply_op U (Op_setSource source immediate) w = setSource U source immediate w"
| "apply_op U (Op_upload immediate) w = upload U immediate w"
| "apply_op U Op_webgl_upload w = webgl_upload U w"
| "apply_op U (Op_minFilter v) w = set_minFilter U v w"
| "apply_op U (Op_magFilter v) w = set_magFilter U v w"
| "apply_op U (Op_mipmaps v) w = set_mipmaps U v w"
| "apply_op U (Op_flipY v) w = Inr (set_flipY v w)"
| "apply_op U (Op_premultiplyAlpha v) w = Inr (set_premultiplyAlpha v w)"
| "apply_op U Op_loseContext w = loseContext w"
| "apply_op U Op_destroy w = Inr (destroy w)"
| "apply_op U (Op_resize wd ht sl) w = resize wd ht sl w"

fun is_resize :: "texture_op \<Rightarrow> bool" where
  "is_resize (Op_resize wd ht sl) = True"
| "is_resize other = False"

section \<open>What the upload paths leave alone\<close>

text \<open>
  The upload functions of the backend write the texture's width, height and backend
  object, the device's call log and unpack state, and append diagnostics of their own.
  \<open>paths_view\<close> is the world with exactly these parts blanked out: an upload function
  \<open>f\<close> leaves everything else alone when \<open>paths_view (f w) = paths_view w\<close>.
  \<^verbatim>\<open>WebglTexture.upload\<close> as a whole also writes \<^verbatim>\<open>_gpuSize\<close>, \<^verbatim>\<open>_operation\<close>,
  \<^verbatim>\<open>_dirtyLevels\<close> and the VRAM statistics: \<open>upload_view\<close>.
\<close>

definition paths_tex :: "texture \<Rightarrow> texture" where
  "paths_tex t = t\<lparr>width := 0, height := 0, impl := createTextureImpl\<rparr>"

definition paths_dev :: "device \<Rightarrow> device" where
  "paths_dev d = d\<lparr>gl := [], unpackFlipY := False, unpackPremultiplyAlpha := False\<rparr>"

definition backend_diagnostic :: "diagnostic \<Rightarrow> bool" where
  "backend_diagnostic d = (d = Warn_Downsample \<or> d = Error_BGRA8 \<or> d = Assert_Destroyed)"

definition front_diags :: "world \<Rightarrow> diagnostic list" where
  "front_diags w = filter (\<lambda>d. \<not> backend_diagnostic d) (w_diags w)"

definition paths_view :: "world \<Rightarrow> texture \<times> device \<times> diagnostic list" where
  "paths_view w = (paths_tex (w_tex w), paths_dev (w_dev w), front_diags w)"

definition upload_tex :: "texture \<Rightarrow> texture" where
  "upload_tex t = (paths_tex t)\<lparr>gpuSize_recorded := 0, operation := 0, dirtyLevels := []\<rparr>"

definition upload_dev :: "device \<Rightarrow> device" where
  "upload_dev d = (paths_dev d)\<lparr>vram := \<lparr>tex = 0, texShadow = 0, texAsset = 0, texLightmap = 0\<rparr>\<rparr>"

definition upload_view :: "world \<Rightarrow> texture \<times> device \<times> diagnostic list" where
  "upload_view w = (upload_tex (w_tex w), upload_dev (w_dev w), front_diags w)"

section \<open>Sample inputs\<close>

text \<open>
  One choice of the external helpers, a fresh device and the empty options object, for
  the examples. The integer formats are the ones the backend's format switch lists
  under "Integer texture formats"; the sizes count four bytes per texel.
\<close>

definition sample_externals :: externals where
  "sample_externals =
     \<lparr>isIntegerPixelFormat = (\<lambda>f. List.member
         [PIXELFORMAT_R8I, PIXELFORMAT_R8U, PIXELFORMAT_R16I, PIXELFORMAT_R16U, PIXELFORMAT_R32I,
          PIXELFORMAT_R32U, PIXELFORMAT_RG8I, PIXELFORMAT_RG8U, PIXELFORMAT_RG16I,
          PIXELFORMAT_RG16U, PIXELFORMAT_RG32I, PIXELFORMAT_RG32U, PIXELFORMAT_RGBA8I,
          PIXELFORMAT_RGBA8U, PIXELFORMAT_RGBA16I, PIXELFORMAT_RGBA16U, PIXELFORMAT_RGBA32I,
          PIXELFORMAT_RGBA32U] f),
      isCompressedPixelFormat = (\<lambda>f. List.member
         [PIXELFORMAT_DXT1, PIXELFORMAT_DXT3, PIXELFORMAT_DXT5, PIXELFORMAT_ETC1] f),
      calcGpuSize = (\<lambda>w h s f vol mips. w * h * s * 4),
      calcLevelGpuSize = (\<lambda>w h d f. w * h * d * 4),
      powerOfTwo = (\<lambda>x. x \<noteq> 0 \<and> x AND (x - 1) = 0),
      scaleFloor = (\<lambda>src sz m. (src * sz) div m)\<rparr>"

definition sample_device :: device where
  "sample_device =
     \<lparr>vram = \<lparr>tex = 0, texShadow = 0, texAsset = 0, texLightmap = 0\<rparr>,
      textures = [], renderVersion = 7, isWebGPU = False,
      maxTextureSize = 4096, maxCubeMapSize = 4096,
      unpackFlipY = False, unpackPremultiplyAlpha = False, gl = []\<rparr>"

definition no_options :: options where
  "no_options =
     \<lparr>opt_width = None, opt_height = None, opt_slices = None, opt_dimension = None,
      opt_array = False, opt_cubemap = False, opt_volume = False, opt_format = None,
      opt_mipmaps = None, opt_minFilter = None, opt_magFilter = None, opt_flipY = None,
      opt_premultiplyAlpha = None, opt_profilerHint = None, opt_levels = None,
      opt_immediate = None\<rparr>"

text \<open>The world after a run that did not throw.\<close>

definition returned :: "error + world \<Rightarrow> world" where
  "returned r = projr r"

text \<open>An 8 by 8 RGBA8 2D texture, as constructed, and after an immediate upload.\<close>

definition plain_options :: options where
  "plain_options = no_options\<lparr>opt_width := Some 8, opt_height := Some 8\<rparr>"

definition plain_world :: world where
  "plain_world = returned (Texture_constructor sample_externals sample_device 0 plain_options)"

definition plain_uploaded :: world where
  "plain_uploaded = returned (upload sample_externals True plain_world)"

text \<open>
  A texture of an integer format for which mipmaps and linear filters are requested, as
  constructed and after an immediate upload; a cubemap for which four slices are
  requested; an 8 by 8 cubemap with and without its six level-0 faces; a four-slice
  8 by 8 array texture.
\<close>

definition integer_options :: options where
  "integer_options = no_options\<lparr>opt_format := Some PIXELFORMAT_R32U, opt_mipmaps := Some True,
     opt_minFilter := Some FILTER_LINEAR_MIPMAP_LINEAR, opt_magFilter := Some FILTER_LINEAR\<rparr>"

definition integer_world :: world where
  "integer_world = returned (Texture_constructor sample_externals sample_device 0 integer_options)"

definition integer_uploaded :: world where
  "integer_uploaded = returned (upload sample_externals True integer_world)"

definition cube4_options :: options where
  "cube4_options = no_options\<lparr>opt_cubemap := True, opt_slices := Some 4\<rparr>"

definition cube4_world :: world where
  "cube4_world = returned (Texture_constructor sample_externals sample_device 0 cube4_options)"

definition cube_options :: options where
  "cube_options = no_options\<lparr>opt_width := Some 8, opt_height := Some 8, opt_cubemap := True\<rparr>"

definition cube_world :: world where
  "cube_world = returned (Texture_constructor sample_externals sample_device 0 cube_options)"

definition sample_face :: "pixel_source option" where
  "sample_face = Some (TypedArray 256)"

definition cube_faces_options :: options where
  "cube_faces_options = cube_options\<lparr>opt_levels := Some [LevelArray [sample_face, sample_face, sample_face,
       sample_face, sample_face, sample_face]],
     opt_immediate := Some True\<rparr>"

definition array_options :: options where
  "array_options = no_options\<lparr>opt_width := Some 8, opt_height := Some 8, opt_array := True,
     opt_slices := Some 4\<rparr>"

definition array_world :: world where
  "array_world = returned (Texture_constructor sample_externals sample_device 0 array_options)"

definition lock_slice2 :: lock_options where
  "lock_slice2 = \<lparr>lock_level = Some 0, lock_slice = Some 2, lock_mode = Some TEXTURELOCK_WRITE\<rparr>"

definition array_locked :: world where
  "array_locked = returned (lock sample_externals lock_slice2 array_world)"

definition array_unlocked :: world where
  "array_unlocked = returned (unlock sample_externals True array_locked)"

text \<open>
  Sources for \<^verbatim>\<open>setSource\<close>: a 16 by 16 canvas, and four faces of which the second
  has another size.
\<close>

definition canvas16 :: element where
  "canvas16 = \<lparr>el_width = 16, el_height = 16, el_videoWidth = 0, el_videoHeight = 0,
                el_image = False, el_video = False\<rparr>"

definition canvas8 :: element where
  "canvas8 = \<lparr>el_width = 8, el_height = 8, el_videoWidth = 0, el_videoHeight = 0,
               el_image = False, el_video = False\<rparr>"

definition mismatched_faces :: source_arg where
  "mismatched_faces =
     SourceArray [Some (Element canvas16), Some (Element canvas8),
                  Some (Element canvas16), Some (Element canvas16)]"

text \<open>
  The worlds of the examples: the cubemap with its six level-0 faces uploaded by the
  constructor; a cubemap whose level 0 lacks the last face while level 1 is complete; the
  cubemap after \<^verbatim>\<open>lock\<close> of face 0; the integer texture after \<^verbatim>\<open>mipmaps = true\<close>;
  a run of operations on a cubemap.
\<close>

definition cube_faces_world :: world where
  "cube_faces_world = returned (Texture_constructor sample_externals sample_device 0 cube_faces_options)"

definition sample_face1 :: "pixel_source option" where
  "sample_face1 = Some (TypedArray 64)"

definition cube_gap_options :: options where
  "cube_gap_options = cube_options\<lparr>opt_levels := Some
       [LevelArray [sample_face, sample_face, sample_face, sample_face, sample_face, None],
        LevelArray [sample_face1, sample_face1, sample_face1, sample_face1, sample_face1, sample_face1]],
     opt_immediate := Some True\<rparr>"

definition cube_gap_world :: world where
  "cube_gap_world = returned (Texture_constructor sample_externals sample_device 0 cube_gap_options)"

definition lock_face0 :: lock_options where
  "lock_face0 = \<lparr>lock_level = Some 0, lock_slice = Some 0, lock_mode = Some TEXTURELOCK_WRITE\<rparr>"

definition cube_locked :: world where
  "cube_locked = returned (lock sample_externals lock_face0 cube_world)"

definition integer_mipmapped :: world where
  "integer_mipmapped = returned (set_mipmaps sample_externals True integer_uploaded)"

definition sample_ops :: "texture_op list" where
  "sample_ops =
     [Op_lock \<lparr>lock_level = Some 0, lock_slice = Some 3, lock_mode = None\<rparr>, Op_unlock True,
      Op_mipmaps False, Op_setSource mismatched_faces True, Op_loseContext, Op_destroy]"

section \<open>Theorems\<close>


lemma try_bind_Inr [simp]: "try_bind (Inr x) f = f x"
  by (simp add: try_bind_def)

lemma try_bind_Inl [simp]: "try_bind (Inl e) f = Inl e"
  by (simp add: try_bind_def)

lemma try_bind_eq_Inr: "try_bind r f = Inr y \<longleftrightarrow> (\<exists>x. r = Inr x \<and> f x = Inr y)"
  by (cases r) simp_all

subsection \<open>The required mip levels\<close>

lemma floor_log2_floorlog: "0 < n \<Longrightarrow> Suc (floor_log2 n) = floorlog 2 n"
proof (induction n rule: floor_log2.induct)
  case (1 n)
  show ?case
  proof (cases "n < 2")
    case True
    with 1(2) have "n = 1" by simp
    then show ?thesis by (simp add: floor_log2.simps compute_floorlog)
  next
    case False
    then have pos: "0 < n div 2" by simp
    have "Suc (floor_log2 n) = Suc (Suc (floor_log2 (n div 2)))"
      using False by (subst floor_log2.simps) simp
    also have "\<dots> = Suc (floorlog 2 (n div 2))"
      using 1(1) [OF False pos] by simp
    also have "\<dots> = floorlog 2 n"
      using False by (subst (2) compute_floorlog) simp
    finally show ?thesis .
  qed
qed

lemma calcMipLevelsCount_log:
  assumes "0 < w" "0 < h"
  shows "int (calcMipLevelsCount w h d) = \<lfloor>log 2 (real_of_int (max w h))\<rfloor> + 1"
proof -
  let ?m = "nat (max w h)"
  have pos: "0 < ?m" using assms by simp
  have "calcMipLevelsCount w h d = floorlog 2 ?m"
    using floor_log2_floorlog [OF pos] by (simp add: calcMipLevelsCount_def)
  also have "\<dots> = nat \<lfloor>log 2 (real ?m)\<rfloor> + 1"
    using pos by (simp add: floorlog_def)
  finally have eq: "calcMipLevelsCount w h d = nat \<lfloor>log 2 (real ?m)\<rfloor> + 1" .
  have "1 \<le> real ?m" using pos by simp
  then have "0 \<le> log 2 (real ?m)" by simp
  then have "0 \<le> \<lfloor>log 2 (real ?m)\<rfloor>" by simp
  moreover have "real ?m = real_of_int (max w h)" using assms by simp
  ultimately show ?thesis using eq by simp
qed

text \<open>
  Claim C8. For a texture of positive width and height, \<^verbatim>\<open>requiredMipLevels\<close> is 1 when
  mipmaps are disabled and \<open>floor (log2 (max width height)) + 1\<close> when they are enabled,
  whatever the dimension of the texture. The getter is the source's; the level count it
  calls is the one modelled from the spec, which does not use the depth it is passed.
\<close>

theorem requiredMipLevels_value:
  assumes "0 < width t" "0 < height t"
  shows "int (requiredMipLevels t) =
           (if mipmaps t then \<lfloor>log 2 (real_of_int (max (width t) (height t)))\<rfloor> + 1 else 1)"
  using calcMipLevelsCount_log [OF assms] by (simp add: requiredMipLevels_def)

theorem requiredMipLevels_value_witness:
  "0 < width (w_tex plain_world) \<and> 0 < height (w_tex plain_world)
   \<and> mipmaps (w_tex plain_world)
   \<and> requiredMipLevels (w_tex plain_world) = 4
   \<and> int (requiredMipLevels (w_tex plain_world)) =
        \<lfloor>log 2 (real_of_int (max (width (w_tex plain_world)) (height (w_tex plain_world))))\<rfloor> + 1"
proof -
  have w: "0 < width (w_tex plain_world)" and h: "0 < height (w_tex plain_world)"
    by code_simp+
  have m: "mipmaps (w_tex plain_world)" by code_simp
  have v: "requiredMipLevels (w_tex plain_world) = 4" by code_simp
  from requiredMipLevels_value [OF w h] m w h v show ?thesis by simp
qed

subsection \<open>The upload paths leave the rest of the world alone\<close>

lemma for_each_invariant:
  assumes step: "\<And>x s s'. body x s = Inr s' \<Longrightarrow> Q s \<Longrightarrow> Q s'"
    and start: "Q s"
    and run: "for_each body xs s = Inr s'"
  shows "Q s'"
  using start run
proof (induction xs arbitrary: s)
  case Nil
  then show ?case by simp
next
  case (Cons x xs)
  from Cons.prems(2) obtain s1 where s1: "body x s = Inr s1" and rest: "for_each body xs s1 = Inr s'"
    by (auto split: sum.splits)
  from step [OF s1 Cons.prems(1)] have "Q s1" .
  from Cons.IH [OF this rest] show ?case .
qed

lemma fold_invariant:
  assumes step: "\<And>x s. Q s \<Longrightarrow> Q (f x s)" and start: "Q s"
  shows "Q (fold f xs s)"
  using start by (induction xs arbitrary: s) (simp_all add: step)

lemma paths_view_gl_do [simp]: "paths_view (gl_do c w) = paths_view w"
  by (simp add: paths_view_def gl_do_def paths_dev_def front_diags_def)

lemma paths_view_setUnpackFlipY [simp]: "paths_view (setUnpackFlipY b w) = paths_view w"
  by (simp add: paths_view_def setUnpackFlipY_def paths_dev_def front_diags_def)

lemma paths_view_setUnpackPremultiplyAlpha [simp]:
  "paths_view (setUnpackPremultiplyAlpha b w) = paths_view w"
  by (simp add: paths_view_def setUnpackPremultiplyAlpha_def paths_dev_def front_diags_def)

lemma paths_view_set_glCreated [simp]: "paths_view (set_glCreated b w) = paths_view w"
  by (simp add: paths_view_def set_glCreated_def paths_tex_def front_diags_def)

lemma paths_view_set_size [simp]: "paths_view (set_size a b w) = paths_view w"
  by (simp add: paths_view_def set_size_def paths_tex_def front_diags_def)

lemma paths_view_Debug_warn [simp]: "backend_diagnostic d \<Longrightarrow> paths_view (Debug_warn d w) = paths_view w"
  by (simp add: paths_view_def Debug_warn_def front_diags_def)

lemma paths_view_Debug_error [simp]:
  "backend_diagnostic d \<Longrightarrow> paths_view (Debug_error d w) = paths_view w"
  by (simp add: paths_view_def Debug_error_def front_diags_def)

lemma paths_view_Debug_assert [simp]: "backend_diagnostic d \<Longrightarrow> paths_view (Debug_assert c d w) = paths_view w"
  by (simp add: paths_view_def Debug_assert_def front_diags_def)

lemma backend_diagnostic_simps [simp]:
  "backend_diagnostic Warn_Downsample" "backend_diagnostic Error_BGRA8"
  "backend_diagnostic Assert_Destroyed"
  by (simp_all add: backend_diagnostic_def)

lemma paths_view_downsampleImage:
  "downsampleImage U e sz w = (e', w') \<Longrightarrow> paths_view w' = paths_view w"
  by (auto simp: downsampleImage_def Let_def split: if_splits)


lemma paths_view_uploadTexture3D [simp]:
  "paths_view (uploadTexture3D mipLevel mipObject w) = paths_view w"
  by (simp add: uploadTexture3D_def Let_def)

lemma paths_view_uploadTextureArray [simp]:
  "paths_view (uploadTextureArray rml mipLevel slice sliceObject w) = paths_view w"
  by (simp add: uploadTextureArray_def Let_def)

lemma paths_view_generateMipmapsIfNeeded [simp]:
  "paths_view (generateMipmapsIfNeeded tr w) = paths_view w"
  by (simp add: generateMipmapsIfNeeded_def Let_def)

lemma paths_view_uploadTexture2D [simp]:
  "paths_view (uploadTexture2D U mipLevel mipObject w) = paths_view w"
proof (cases "browserInterface mipObject")
  case None
  then show ?thesis by (simp add: uploadTexture2D_def Let_def)
next
  case (Some e0)
  obtain e' w' where ds: "downsampleImage U e0 (maxTextureSize (w_dev w)) w = (e', w')"
    by force
  have "paths_view w' = paths_view w"
    using ds by (rule paths_view_downsampleImage)
  then show ?thesis
    using Some ds by (simp add: uploadTexture2D_def Let_def)
qed

lemma paths_view_uploadTextureCube [simp]:
  "paths_view (uploadTextureCube U mipLevel face faceObject w) = paths_view w"
proof (cases faceObject)
  case (TypedArray n)
  then show ?thesis by (simp add: uploadTextureCube_def Let_def)
next
  case (Element e0)
  obtain e' w' where ds: "downsampleImage U e0 (maxCubeMapSize (w_dev w)) w = (e', w')"
    by force
  have "paths_view w' = paths_view w"
    using ds by (rule paths_view_downsampleImage)
  then show ?thesis
    using Element ds by (simp add: uploadTextureCube_def Let_def)
qed


lemma paths_view_upload_dirty_slice:
  "upload_dirty_slice U rml l sl (tr, w) = Inr (tr', w') \<Longrightarrow> paths_view w' = paths_view w"
  unfolding upload_dirty_slice_def Let_def
  by (auto split: option.splits level_entry.splits dimension.split)


lemma paths_view_dirty_slices:
  assumes "for_each (upload_dirty_slice U rml l) ss (tr, w) = Inr (tr', w')"
  shows "paths_view w' = paths_view w"
proof -
  have "paths_view (snd (tr', w')) = paths_view w"
  proof (rule for_each_invariant [where Q = "\<lambda>s. paths_view (snd s) = paths_view w", OF _ _ assms])
    fix x s s'
    assume "upload_dirty_slice U rml l x s = Inr s'" "paths_view (snd s) = paths_view w"
    then show "paths_view (snd s') = paths_view w"
      using paths_view_upload_dirty_slice [of U rml l x "fst s" "snd s" "fst s'" "snd s'"] by simp
  qed simp
  then show ?thesis by simp
qed

lemma paths_view_upload_dirty_level:
  assumes "upload_dirty_level U rml entry (tr, w) = Inr (tr', w')"
  shows "paths_view w' = paths_view w"
proof (cases "array (w_tex w) \<or> cubemap (w_tex w)")
  case True
  with assms show ?thesis
    unfolding upload_dirty_level_def Let_def
    by (auto split: prod.splits dirty_entry.splits dest: paths_view_dirty_slices)
next
  case False
  with assms show ?thesis
    unfolding upload_dirty_level_def Let_def
    by (auto split: prod.splits if_splits dimension.split)
qed

lemma paths_view_dirty_levels:
  assumes "for_each (upload_dirty_level U rml) es (tr, w) = Inr (tr', w')"
  shows "paths_view w' = paths_view w"
proof -
  have "paths_view (snd (tr', w')) = paths_view w"
  proof (rule for_each_invariant [where Q = "\<lambda>s. paths_view (snd s) = paths_view w", OF _ _ assms])
    fix x s s'
    assume "upload_dirty_level U rml x s = Inr s'" "paths_view (snd s) = paths_view w"
    then show "paths_view (snd s') = paths_view w"
      using paths_view_upload_dirty_level [of U rml x "fst s" "snd s" "fst s'" "snd s'"] by simp
  qed simp
  then show ?thesis by simp
qed

lemma paths_view_upload_full_slice:
  "paths_view (snd (snd (upload_full_slice U rml l m sl st))) = paths_view (snd (snd st))"
  unfolding upload_full_slice_def Let_def
  by (auto split: prod.splits option.splits)

lemma paths_view_full_slices:
  "paths_view (snd (snd (fold (upload_full_slice U rml l m) sls st))) = paths_view (snd (snd st))"
  by (rule fold_invariant [where Q = "\<lambda>s. paths_view (snd (snd s)) = paths_view (snd (snd st))"])
     (simp_all add: paths_view_upload_full_slice)

lemma paths_view_full_slices':
  "fold (upload_full_slice U rml l m) sls (a, ms, w) = (a', ms', w') \<Longrightarrow> paths_view w' = paths_view w"
  using paths_view_full_slices [of U rml l m sls "(a, ms, w)"] by simp

lemma paths_view_upload_full_level:
  assumes "upload_full_level U rml l (a, m, w) = Inr (a', m', w')"
  shows "paths_view w' = paths_view w"
  using assms
  unfolding upload_full_level_def Let_def
  by (auto simp: try_bind_eq_Inr dest: paths_view_full_slices'
           split: dimension.splits if_splits option.splits level_entry.splits)

lemma paths_view_full_levels:
  assumes "for_each (upload_full_level U rml) ls (a, m, w) = Inr (a', m', w')"
  shows "paths_view w' = paths_view w"
proof -
  have "paths_view (snd (snd (a', m', w'))) = paths_view w"
  proof (rule for_each_invariant [where Q = "\<lambda>s. paths_view (snd (snd s)) = paths_view w", OF _ _ assms])
    fix x s s'
    assume "upload_full_level U rml x s = Inr s'" "paths_view (snd (snd s)) = paths_view w"
    then show "paths_view (snd (snd s')) = paths_view w"
      using paths_view_upload_full_level
              [of U rml x "fst s" "fst (snd s)" "snd (snd s)" "fst s'" "fst (snd s')" "snd (snd s')"]
      by simp
  qed simp
  then show ?thesis by simp
qed


lemma paths_view_tex:
  assumes "paths_view w' = paths_view w"
  shows "gpuSize_recorded (w_tex w') = gpuSize_recorded (w_tex w)"
    and "tex_id (w_tex w') = tex_id (w_tex w)"
    and "invalid (w_tex w') = invalid (w_tex w)"
    and "lockedMode (w_tex w') = lockedMode (w_tex w)"
    and "renderVersionDirty (w_tex w') = renderVersionDirty (w_tex w)"
    and "dirtyLevels (w_tex w') = dirtyLevels (w_tex w)"
    and "operation (w_tex w') = operation (w_tex w)"
    and "levels (w_tex w') = levels (w_tex w)"
    and "has_device (w_tex w') = has_device (w_tex w)"
    and "dimension (w_tex w') = dimension (w_tex w)"
    and "slices (w_tex w') = slices (w_tex w)"
    and "format (w_tex w') = format (w_tex w)"
    and "mipmaps (w_tex w') = mipmaps (w_tex w)"
    and "minFilter (w_tex w') = minFilter (w_tex w)"
    and "magFilter (w_tex w') = magFilter (w_tex w)"
    and "compressed (w_tex w') = compressed (w_tex w)"
    and "integerFormat (w_tex w') = integerFormat (w_tex w)"
    and "flipY (w_tex w') = flipY (w_tex w)"
    and "premultiplyAlpha (w_tex w') = premultiplyAlpha (w_tex w)"
    and "profilerHint (w_tex w') = profilerHint (w_tex w)"
proof -
  from assms have t: "paths_tex (w_tex w') = paths_tex (w_tex w)"
    by (simp add: paths_view_def)
  show "gpuSize_recorded (w_tex w') = gpuSize_recorded (w_tex w)"
    using arg_cong [OF t, of gpuSize_recorded] by (simp add: paths_tex_def)
  show "tex_id (w_tex w') = tex_id (w_tex w)"
    using arg_cong [OF t, of tex_id] by (simp add: paths_tex_def)
  show "invalid (w_tex w') = invalid (w_tex w)"
    using arg_cong [OF t, of invalid] by (simp add: paths_tex_def)
  show "lockedMode (w_tex w') = lockedMode (w_tex w)"
    using arg_cong [OF t, of lockedMode] by (simp add: paths_tex_def)
  show "renderVersionDirty (w_tex w') = renderVersionDirty (w_tex w)"
    using arg_cong [OF t, of renderVersionDirty] by (simp add: paths_tex_def)
  show "dirtyLevels (w_tex w') = dirtyLevels (w_tex w)"
    using arg_cong [OF t, of dirtyLevels] by (simp add: paths_tex_def)
  show "operation (w_tex w') = operation (w_tex w)"
    using arg_cong [OF t, of operation] by (simp add: paths_tex_def)
  show "levels (w_tex w') = levels (w_tex w)"
    using arg_cong [OF t, of levels] by (simp add: paths_tex_def)
  show "has_device (w_tex w') = has_device (w_tex w)"
    using arg_cong [OF t, of has_device] by (simp add: paths_tex_def)
  show "dimension (w_tex w') = dimension (w_tex w)"
    using arg_cong [OF t, of dimension] by (simp add: paths_tex_def)
  show "slices (w_tex w') = slices (w_tex w)"
    using arg_cong [OF t, of slices] by (simp add: paths_tex_def)
  show "format (w_tex w') = format (w_tex w)"
    using arg_cong [OF t, of format] by (simp add: paths_tex_def)
  show "mipmaps (w_tex w') = mipmaps (w_tex w)"
    using arg_cong [OF t, of mipmaps] by (simp add: paths_tex_def)
  show "minFilter (w_tex w') = minFilter (w_tex w)"
    using arg_cong [OF t, of minFilter] by (simp add: paths_tex_def)
  show "magFilter (w_tex w') = magFilter (w_tex w)"
    using arg_cong [OF t, of magFilter] by (simp add: paths_tex_def)
  show "compressed (w_tex w') = compressed (w_tex w)"
    using arg_cong [OF t, of compressed] by (simp add: paths_tex_def)
  show "integerFormat (w_tex w') = integerFormat (w_tex w)"
    using arg_cong [OF t, of integerFormat] by (simp add: paths_tex_def)
  show "flipY (w_tex w') = flipY (w_tex w)"
    using arg_cong [OF t, of flipY] by (simp add: paths_tex_def)
  show "premultiplyAlpha (w_tex w') = premultiplyAlpha (w_tex w)"
    using arg_cong [OF t, of premultiplyAlpha] by (simp add: paths_tex_def)
  show "profilerHint (w_tex w') = profilerHint (w_tex w)"
    using arg_cong [OF t, of profilerHint] by (simp add: paths_tex_def)
qed

lemma paths_view_dev:
  assumes "paths_view w' = paths_view w"
  shows "vram (w_dev w') = vram (w_dev w)"
    and "textures (w_dev w') = textures (w_dev w)"
    and "renderVersion (w_dev w') = renderVersion (w_dev w)"
    and "isWebGPU (w_dev w') = isWebGPU (w_dev w)"
    and "maxTextureSize (w_dev w') = maxTextureSize (w_dev w)"
    and "maxCubeMapSize (w_dev w') = maxCubeMapSize (w_dev w)"
    and "front_diags w' = front_diags w"
proof -
  from assms have d: "paths_dev (w_dev w') = paths_dev (w_dev w)"
    by (simp add: paths_view_def)
  show "vram (w_dev w') = vram (w_dev w)"
    using arg_cong [OF d, of vram] by (simp add: paths_dev_def)
  show "textures (w_dev w') = textures (w_dev w)"
    using arg_cong [OF d, of textures] by (simp add: paths_dev_def)
  show "renderVersion (w_dev w') = renderVersion (w_dev w)"
    using arg_cong [OF d, of renderVersion] by (simp add: paths_dev_def)
  show "isWebGPU (w_dev w') = isWebGPU (w_dev w)"
    using arg_cong [OF d, of isWebGPU] by (simp add: paths_dev_def)
  show "maxTextureSize (w_dev w') = maxTextureSize (w_dev w)"
    using arg_cong [OF d, of maxTextureSize] by (simp add: paths_dev_def)
  show "maxCubeMapSize (w_dev w') = maxCubeMapSize (w_dev w)"
    using arg_cong [OF d, of maxCubeMapSize] by (simp add: paths_dev_def)
  show "front_diags w' = front_diags w"
    using assms by (simp add: paths_view_def)
qed

lemma paths_view_upload_paths:
  assumes "upload_paths U w = Inr w1"
  shows "paths_view w1 = paths_view w"
  using assms unfolding upload_paths_def Let_def
  by (auto simp: try_bind_eq_Inr dest: paths_view_dirty_levels paths_view_full_levels
           split: if_splits)

lemma webgl_upload_unfold:
  "webgl_upload U w =
     (let w0 = Debug_assert (has_device (w_tex w)) Assert_Destroyed w
      in if operation (w_tex w) = TEXTURE_OPERATION_NONE then Inr w0
         else try_bind (upload_paths U w0)
                (\<lambda>w1. let t1 = w_tex w1;
                           v1 = (if gpuSize_recorded t1 \<noteq> 0
                                 then adjustVramSizeTracking t1 (vram (w_dev w1)) (- gpuSize_recorded t1)
                                 else vram (w_dev w1));
                           t2 = t1\<lparr>gpuSize_recorded := gpuSize U t1\<rparr>;
                           v2 = adjustVramSizeTracking t2 v1 (gpuSize_recorded t2)
                       in Inr (w1\<lparr>w_dev := (w_dev w1)\<lparr>vram := v2\<rparr>,
                                  w_tex := t2\<lparr>operation := TEXTURE_OPERATION_NONE, dirtyLevels := [],
                                              impl := (impl t2)\<lparr>glCreated := True\<rparr>\<rparr>\<rparr>)))"
  by (simp add: webgl_upload_def upload_paths_def Let_def Debug_assert_def)


subsection \<open>VRAM accounting of the backend upload\<close>

lemma adjustVramSizeTracking_tex [simp]:
  "tex (adjustVramSizeTracking t v sz) = tex v + sz"
  by (simp add: adjustVramSizeTracking_def Let_def)

lemma adjustVramSizeTracking_zero [simp]: "adjustVramSizeTracking t v 0 = v"
  by (simp add: adjustVramSizeTracking_def Let_def)

lemma adjustVramSizeTracking_hint:
  "profilerHint t' = profilerHint t \<Longrightarrow> adjustVramSizeTracking t' v sz = adjustVramSizeTracking t v sz"
  by (simp add: adjustVramSizeTracking_def Let_def)

lemma adjustVramSizeTracking_gpuSize_update [simp]:
  "adjustVramSizeTracking (t\<lparr>gpuSize_recorded := x\<rparr>) v sz = adjustVramSizeTracking t v sz"
  by (simp add: adjustVramSizeTracking_def Let_def)

lemma gpuSize_cong:
  "width t' = width t \<Longrightarrow> height t' = height t \<Longrightarrow> slices t' = slices t \<Longrightarrow>
   format t' = format t \<Longrightarrow> dimension t' = dimension t \<Longrightarrow> mipmaps t' = mipmaps t \<Longrightarrow>
   compressed t' = compressed t \<Longrightarrow> integerFormat t' = integerFormat t \<Longrightarrow>
   gpuSize U t' = gpuSize U t"
  by (simp add: gpuSize_def pot_def volume_def)

lemma webgl_upload_none:
  "operation (w_tex w) = TEXTURE_OPERATION_NONE \<Longrightarrow>
   webgl_upload U w = Inr (Debug_assert (has_device (w_tex w)) Assert_Destroyed w)"
  by (simp add: webgl_upload_unfold Let_def)

lemma webgl_upload_result:
  assumes ret: "webgl_upload U w = Inr w'"
    and op: "operation (w_tex w) \<noteq> TEXTURE_OPERATION_NONE"
  shows "vram (w_dev w') =
           adjustVramSizeTracking (w_tex w)
             (adjustVramSizeTracking (w_tex w) (vram (w_dev w)) (- gpuSize_recorded (w_tex w)))
             (gpuSize U (w_tex w'))"
    and "gpuSize_recorded (w_tex w') = gpuSize U (w_tex w')"
    and "operation (w_tex w') = TEXTURE_OPERATION_NONE"
    and "dirtyLevels (w_tex w') = []"
    and "upload_view w' = upload_view w"
proof -
  let ?w0 = "Debug_assert (has_device (w_tex w)) Assert_Destroyed w"
  from ret op obtain w1 where paths: "upload_paths U ?w0 = Inr w1"
    and w': "w' = (let t1 = w_tex w1;
                       v1 = (if gpuSize_recorded t1 \<noteq> 0
                             then adjustVramSizeTracking t1 (vram (w_dev w1)) (- gpuSize_recorded t1)
                             else vram (w_dev w1));
                       t2 = t1\<lparr>gpuSize_recorded := gpuSize U t1\<rparr>;
                       v2 = adjustVramSizeTracking t2 v1 (gpuSize_recorded t2)
                   in w1\<lparr>w_dev := (w_dev w1)\<lparr>vram := v2\<rparr>,
                         w_tex := t2\<lparr>operation := TEXTURE_OPERATION_NONE, dirtyLevels := [],
                                     impl := (impl t2)\<lparr>glCreated := True\<rparr>\<rparr>\<rparr>)"
    by (auto simp: webgl_upload_unfold Let_def try_bind_eq_Inr)
  have view: "paths_view w1 = paths_view w"
    using paths_view_upload_paths [OF paths] by simp
  note tx = paths_view_tex [OF view] and dv = paths_view_dev [OF view]
  have size: "gpuSize U (w_tex w') = gpuSize U (w_tex w1)"
    by (rule gpuSize_cong) (simp_all add: w' Let_def)
  have hint: "\<And>v sz. adjustVramSizeTracking (w_tex w1) v sz = adjustVramSizeTracking (w_tex w) v sz"
    by (rule adjustVramSizeTracking_hint) (rule tx)
  show "gpuSize_recorded (w_tex w') = gpuSize U (w_tex w')"
    unfolding size by (simp add: w' Let_def)
  show "operation (w_tex w') = TEXTURE_OPERATION_NONE"
    by (simp add: w' Let_def)
  show "dirtyLevels (w_tex w') = []"
    by (simp add: w' Let_def)
  show "vram (w_dev w') =
           adjustVramSizeTracking (w_tex w)
             (adjustVramSizeTracking (w_tex w) (vram (w_dev w)) (- gpuSize_recorded (w_tex w)))
             (gpuSize U (w_tex w'))"
    unfolding size
    by (simp add: w' Let_def hint tx dv)
  from view have "paths_tex (w_tex w1) = paths_tex (w_tex w)" "paths_dev (w_dev w1) = paths_dev (w_dev w)"
    "front_diags w1 = front_diags w"
    by (simp_all add: paths_view_def)
  then show "upload_view w' = upload_view w"
    by (simp add: upload_view_def upload_tex_def upload_dev_def w' Let_def paths_tex_def
        paths_dev_def front_diags_def TEXTURE_OPERATION_NONE_def)
qed

text \<open>
  On a 2D or 3D texture no loop body of the backend upload throws, so the upload returns.
\<close>

lemma for_each_returns:
  assumes "\<And>x s. \<exists>s'. body x s = Inr s'"
  shows "\<exists>s'. for_each body xs s = Inr s'"
proof (induction xs arbitrary: s)
  case Nil
  show ?case by simp
next
  case (Cons x xs)
  from assms obtain s1 where "body x s = Inr s1" by blast
  with Cons.IH [of s1] show ?case by simp
qed

lemma upload_dirty_level_plain_dimension:
  assumes "upload_dirty_level U rml entry (tr, w) = Inr (tr', w')"
  shows "dimension (w_tex w') = dimension (w_tex w)"
  using paths_view_tex(10) [OF paths_view_upload_dirty_level [OF assms]] .

lemma upload_dirty_levels_plain_returns:
  assumes "\<not> (array (w_tex w) \<or> cubemap (w_tex w))"
  shows "\<exists>s'. for_each (upload_dirty_level U rml) es (tr, w) = Inr s'"
  using assms
proof (induction es arbitrary: tr w)
  case Nil
  show ?case by simp
next
  case (Cons e es)
  have "\<exists>s1. upload_dirty_level U rml e (tr, w) = Inr s1"
    using Cons.prems by (cases e) (auto simp: upload_dirty_level_def Let_def)
  then obtain tr1 w1 where step: "upload_dirty_level U rml e (tr, w) = Inr (tr1, w1)"
    by auto
  have "dimension (w_tex w1) = dimension (w_tex w)"
    using step by (rule upload_dirty_level_plain_dimension)
  with Cons.prems have "\<not> (array (w_tex w1) \<or> cubemap (w_tex w1))"
    by (simp add: array_def cubemap_def)
  from Cons.IH [OF this, of tr1] step show ?case by simp
qed

lemma upload_full_levels_plain_returns:
  assumes "\<not> (array (w_tex w) \<or> cubemap (w_tex w))"
  shows "\<exists>s'. for_each (upload_full_level U rml) ls (a, m, w) = Inr s'"
  using assms
proof (induction ls arbitrary: a m w)
  case Nil
  show ?case by simp
next
  case (Cons l ls)
  have "\<exists>s1. upload_full_level U rml l (a, m, w) = Inr s1"
    using Cons.prems
    by (cases "dimension (w_tex w)")
       (auto simp: upload_full_level_def Let_def array_def cubemap_def)
  then obtain a1 m1 w1 where step: "upload_full_level U rml l (a, m, w) = Inr (a1, m1, w1)"
    by auto
  have "dimension (w_tex w1) = dimension (w_tex w)"
    using paths_view_tex(10) [OF paths_view_upload_full_level [OF step]] .
  with Cons.prems have "\<not> (array (w_tex w1) \<or> cubemap (w_tex w1))"
    by (simp add: array_def cubemap_def)
  from Cons.IH [OF this, of a1 m1] step show ?case by simp
qed

lemma webgl_upload_plain_returns:
  assumes "\<not> (array (w_tex w) \<or> cubemap (w_tex w))"
  shows "\<exists>w'. webgl_upload U w = Inr w'"
proof -
  let ?w0 = "Debug_assert (has_device (w_tex w)) Assert_Destroyed w"
  have plain: "\<not> (array (w_tex ?w0) \<or> cubemap (w_tex ?w0))"
    using assms by (simp add: Debug_assert_def)
  have "\<exists>w1. upload_paths U ?w0 = Inr w1"
    using upload_dirty_levels_plain_returns [OF plain, of U "requiredMipLevels (w_tex ?w0)"
        "dirtyLevels (w_tex ?w0)" "[]"]
      upload_full_levels_plain_returns [OF plain, of U "requiredMipLevels (w_tex ?w0)"
        "map int [0..<requiredMipLevels (w_tex ?w0)]" False False]
    by (auto simp: upload_paths_def Let_def)
  then show ?thesis
    by (auto simp: webgl_upload_unfold Let_def)
qed

text \<open>
  Claim C2. \<^verbatim>\<open>WebglTexture.upload\<close> with the operation bitmask NONE returns and leaves
  the texture and the device (the VRAM statistics with it) as they were. With any other
  bitmask, whenever it returns: the VRAM total has changed by the recomputed
  \<^verbatim>\<open>gpuSize\<close> minus the recorded \<^verbatim>\<open>_gpuSize\<close>, the statistics are the old ones with
  the old size taken out and the new one put in (in every category at once),
  \<^verbatim>\<open>_gpuSize\<close> is the recomputed size, the bitmask is NONE and the dirty map is empty.
  On a 2D or 3D texture it always returns.
\<close>

theorem webgl_upload_accounting:
  "(operation (w_tex w) = TEXTURE_OPERATION_NONE \<longrightarrow>
      (\<exists>w'. webgl_upload U w = Inr w' \<and> w_tex w' = w_tex w \<and> w_dev w' = w_dev w))
   \<and> (operation (w_tex w) \<noteq> TEXTURE_OPERATION_NONE \<longrightarrow>
      (\<forall>w'. webgl_upload U w = Inr w' \<longrightarrow>
         tex (vram (w_dev w')) =
           tex (vram (w_dev w)) - gpuSize_recorded (w_tex w) + gpuSize U (w_tex w')
         \<and> vram (w_dev w') =
             adjustVramSizeTracking (w_tex w)
               (adjustVramSizeTracking (w_tex w) (vram (w_dev w)) (- gpuSize_recorded (w_tex w)))
               (gpuSize U (w_tex w'))
         \<and> gpuSize_recorded (w_tex w') = gpuSize U (w_tex w')
         \<and> operation (w_tex w') = TEXTURE_OPERATION_NONE
         \<and> dirtyLevels (w_tex w') = []))
   \<and> (\<not> (array (w_tex w) \<or> cubemap (w_tex w)) \<longrightarrow> (\<exists>w'. webgl_upload U w = Inr w'))"
proof (intro conjI impI allI)
  assume "operation (w_tex w) = TEXTURE_OPERATION_NONE"
  then have "webgl_upload U w = Inr (Debug_assert (has_device (w_tex w)) Assert_Destroyed w)"
    by (rule webgl_upload_none)
  then show "\<exists>w'. webgl_upload U w = Inr w' \<and> w_tex w' = w_tex w \<and> w_dev w' = w_dev w"
    by (simp add: Debug_assert_def)
next
  fix w'
  assume op: "operation (w_tex w) \<noteq> TEXTURE_OPERATION_NONE" and ret: "webgl_upload U w = Inr w'"
  note r = webgl_upload_result [OF ret op]
  show "vram (w_dev w') =
             adjustVramSizeTracking (w_tex w)
               (adjustVramSizeTracking (w_tex w) (vram (w_dev w)) (- gpuSize_recorded (w_tex w)))
               (gpuSize U (w_tex w'))"
    by (rule r(1))
  then show "tex (vram (w_dev w')) =
           tex (vram (w_dev w)) - gpuSize_recorded (w_tex w) + gpuSize U (w_tex w')"
    by simp
  show "gpuSize_recorded (w_tex w') = gpuSize U (w_tex w')" by (rule r(2))
  show "operation (w_tex w') = TEXTURE_OPERATION_NONE" by (rule r(3))
  show "dirtyLevels (w_tex w') = []" by (rule r(4))
next
  assume "\<not> (array (w_tex w) \<or> cubemap (w_tex w))"
  then show "\<exists>w'. webgl_upload U w = Inr w'" by (rule webgl_upload_plain_returns)
qed

theorem webgl_upload_accounting_witness:
  "operation (w_tex plain_uploaded) = TEXTURE_OPERATION_NONE
   \<and> webgl_upload sample_externals plain_uploaded = Inr plain_uploaded
   \<and> operation (w_tex plain_world) \<noteq> TEXTURE_OPERATION_NONE
   \<and> \<not> (array (w_tex plain_world) \<or> cubemap (w_tex plain_world))
   \<and> \<not> isl (webgl_upload sample_externals plain_world)
   \<and> gpuSize_recorded (w_tex plain_world) = 0
   \<and> tex (vram (w_dev plain_world)) = 0
   \<and> tex (vram (w_dev (returned (webgl_upload sample_externals plain_world)))) = 256
   \<and> gpuSize_recorded (w_tex (returned (webgl_upload sample_externals plain_world))) = 256
   \<and> operation (w_tex (returned (webgl_upload sample_externals plain_world))) = TEXTURE_OPERATION_NONE
   \<and> dirtyLevels (w_tex (returned (webgl_upload sample_externals plain_world))) = []"
proof -
  let ?r = "webgl_upload sample_externals plain_world"
  have none: "operation (w_tex plain_uploaded) = TEXTURE_OPERATION_NONE" by code_simp
  have same: "webgl_upload sample_externals plain_uploaded = Inr plain_uploaded" by code_simp
  have pending: "operation (w_tex plain_world) \<noteq> TEXTURE_OPERATION_NONE" by code_simp
  have plain: "\<not> (array (w_tex plain_world) \<or> cubemap (w_tex plain_world))" by code_simp
  have "\<exists>w'. ?r = Inr w'"
    by (rule mp [OF conjunct2 [OF conjunct2 [OF webgl_upload_accounting]] plain])
  then have ret: "\<not> isl ?r" by (elim exE) simp
  then have eq: "?r = Inr (returned ?r)" by (cases ?r) (simp_all add: returned_def)
  have old: "gpuSize_recorded (w_tex plain_world) = 0" "tex (vram (w_dev plain_world)) = 0"
    by code_simp+
  have new: "gpuSize sample_externals (w_tex (returned ?r)) = 256" by code_simp
  from webgl_upload_accounting [of plain_world sample_externals] pending eq
  have "tex (vram (w_dev (returned ?r))) =
          tex (vram (w_dev plain_world)) - gpuSize_recorded (w_tex plain_world)
            + gpuSize sample_externals (w_tex (returned ?r))"
    and "gpuSize_recorded (w_tex (returned ?r)) = gpuSize sample_externals (w_tex (returned ?r))"
    and "operation (w_tex (returned ?r)) = TEXTURE_OPERATION_NONE"
    and "dirtyLevels (w_tex (returned ?r)) = []"
    by blast+
  with none same pending plain ret old new show ?thesis by simp
qed


subsection \<open>What a whole upload leaves alone\<close>

lemma upload_view_of_paths: "paths_view w' = paths_view w \<Longrightarrow> upload_view w' = upload_view w"
  by (simp add: paths_view_def upload_view_def upload_tex_def upload_dev_def)

lemma webgl_upload_view:
  assumes "webgl_upload U w = Inr w'"
  shows "upload_view w' = upload_view w"
proof (cases "operation (w_tex w) = TEXTURE_OPERATION_NONE")
  case True
  with assms have "w' = Debug_assert (has_device (w_tex w)) Assert_Destroyed w"
    by (simp add: webgl_upload_none)
  then show ?thesis by (intro upload_view_of_paths) simp
next
  case False
  with assms show ?thesis by (intro webgl_upload_result(5))
qed

lemma paths_view_initialize [simp]: "paths_view (initialize w) = paths_view w"
proof -
  have "paths_view (initialize w) =
          paths_view (if format (w_tex w) = PIXELFORMAT_BGRA8
                      then Debug_error Error_BGRA8 (gl_do CreateTexture w)
                      else gl_do CreateTexture w)"
    by (simp add: initialize_def Let_def paths_view_def paths_tex_def front_diags_def)
  then show ?thesis by simp
qed

lemma uploadImmediate_view:
  assumes "uploadImmediate U immediate w = Inr w'"
  shows "upload_view w' = upload_view w"
proof (cases immediate)
  case False
  with assms show ?thesis by (simp add: uploadImmediate_def)
next
  case True
  let ?w1 = "if \<not> glTexture (impl (w_tex w)) then initialize w else w"
  let ?w2 = "gl_do (BindTexture (glTarget (impl (w_tex ?w1)))) ?w1"
  from assms True have "webgl_upload U ?w2 = Inr w'"
    by (simp add: uploadImmediate_def Let_def split: if_splits)
  then have "upload_view w' = upload_view ?w2" by (rule webgl_upload_view)
  also have "\<dots> = upload_view w" by (rule upload_view_of_paths) simp
  finally show ?thesis .
qed

lemma upload_view_operation [simp]:
  "upload_view (w\<lparr>w_tex := (w_tex w)\<lparr>operation := x\<rparr>\<rparr>) = upload_view w"
  by (simp add: upload_view_def upload_tex_def paths_tex_def front_diags_def)

lemma upload_upload_view:
  assumes "upload U immediate w = Inr w'"
  shows "upload_view w' = upload_view w"
  using uploadImmediate_view [OF assms [unfolded upload_def]] by simp

lemma upload_view_tex:
  assumes "upload_view w' = upload_view w"
  shows "tex_id (w_tex w') = tex_id (w_tex w)"
    and "invalid (w_tex w') = invalid (w_tex w)"
    and "lockedMode (w_tex w') = lockedMode (w_tex w)"
    and "renderVersionDirty (w_tex w') = renderVersionDirty (w_tex w)"
    and "levels (w_tex w') = levels (w_tex w)"
    and "has_device (w_tex w') = has_device (w_tex w)"
    and "dimension (w_tex w') = dimension (w_tex w)"
    and "slices (w_tex w') = slices (w_tex w)"
    and "format (w_tex w') = format (w_tex w)"
    and "mipmaps (w_tex w') = mipmaps (w_tex w)"
    and "minFilter (w_tex w') = minFilter (w_tex w)"
    and "magFilter (w_tex w') = magFilter (w_tex w)"
    and "compressed (w_tex w') = compressed (w_tex w)"
    and "integerFormat (w_tex w') = integerFormat (w_tex w)"
    and "flipY (w_tex w') = flipY (w_tex w)"
    and "premultiplyAlpha (w_tex w') = premultiplyAlpha (w_tex w)"
    and "profilerHint (w_tex w') = profilerHint (w_tex w)"
proof -
  from assms have t: "upload_tex (w_tex w') = upload_tex (w_tex w)"
    by (simp add: upload_view_def)
  show "tex_id (w_tex w') = tex_id (w_tex w)"
    using arg_cong [OF t, of tex_id] by (simp add: upload_tex_def paths_tex_def)
  show "invalid (w_tex w') = invalid (w_tex w)"
    using arg_cong [OF t, of invalid] by (simp add: upload_tex_def paths_tex_def)
  show "lockedMode (w_tex w') = lockedMode (w_tex w)"
    using arg_cong [OF t, of lockedMode] by (simp add: upload_tex_def paths_tex_def)
  show "renderVersionDirty (w_tex w') = renderVersionDirty (w_tex w)"
    using arg_cong [OF t, of renderVersionDirty] by (simp add: upload_tex_def paths_tex_def)
  show "levels (w_tex w') = levels (w_tex w)"
    using arg_cong [OF t, of levels] by (simp add: upload_tex_def paths_tex_def)
  show "has_device (w_tex w') = has_device (w_tex w)"
    using arg_cong [OF t, of has_device] by (simp add: upload_tex_def paths_tex_def)
  show "dimension (w_tex w') = dimension (w_tex w)"
    using arg_cong [OF t, of dimension] by (simp add: upload_tex_def paths_tex_def)
  show "slices (w_tex w') = slices (w_tex w)"
    using arg_cong [OF t, of slices] by (simp add: upload_tex_def paths_tex_def)
  show "format (w_tex w') = format (w_tex w)"
    using arg_cong [OF t, of format] by (simp add: upload_tex_def paths_tex_def)
  show "mipmaps (w_tex w') = mipmaps (w_tex w)"
    using arg_cong [OF t, of mipmaps] by (simp add: upload_tex_def paths_tex_def)
  show "minFilter (w_tex w') = minFilter (w_tex w)"
    using arg_cong [OF t, of minFilter] by (simp add: upload_tex_def paths_tex_def)
  show "magFilter (w_tex w') = magFilter (w_tex w)"
    using arg_cong [OF t, of magFilter] by (simp add: upload_tex_def paths_tex_def)
  show "compressed (w_tex w') = compressed (w_tex w)"
    using arg_cong [OF t, of compressed] by (simp add: upload_tex_def paths_tex_def)
  show "integerFormat (w_tex w') = integerFormat (w_tex w)"
    using arg_cong [OF t, of integerFormat] by (simp add: upload_tex_def paths_tex_def)
  show "flipY (w_tex w') = flipY (w_tex w)"
    using arg_cong [OF t, of flipY] by (simp add: upload_tex_def paths_tex_def)
  show "premultiplyAlpha (w_tex w') = premultiplyAlpha (w_tex w)"
    using arg_cong [OF t, of premultiplyAlpha] by (simp add: upload_tex_def paths_tex_def)
  show "profilerHint (w_tex w') = profilerHint (w_tex w)"
    using arg_cong [OF t, of profilerHint] by (simp add: upload_tex_def paths_tex_def)
qed

lemma upload_view_dev:
  assumes "upload_view w' = upload_view w"
  shows "textures (w_dev w') = textures (w_dev w)"
    and "renderVersion (w_dev w') = renderVersion (w_dev w)"
    and "isWebGPU (w_dev w') = isWebGPU (w_dev w)"
    and "maxTextureSize (w_dev w') = maxTextureSize (w_dev w)"
    and "maxCubeMapSize (w_dev w') = maxCubeMapSize (w_dev w)"
    and "front_diags w' = front_diags w"
proof -
  from assms have d: "upload_dev (w_dev w') = upload_dev (w_dev w)"
    by (simp add: upload_view_def)
  show "textures (w_dev w') = textures (w_dev w)"
    using arg_cong [OF d, of textures] by (simp add: upload_dev_def paths_dev_def)
  show "renderVersion (w_dev w') = renderVersion (w_dev w)"
    using arg_cong [OF d, of renderVersion] by (simp add: upload_dev_def paths_dev_def)
  show "isWebGPU (w_dev w') = isWebGPU (w_dev w)"
    using arg_cong [OF d, of isWebGPU] by (simp add: upload_dev_def paths_dev_def)
  show "maxTextureSize (w_dev w') = maxTextureSize (w_dev w)"
    using arg_cong [OF d, of maxTextureSize] by (simp add: upload_dev_def paths_dev_def)
  show "maxCubeMapSize (w_dev w') = maxCubeMapSize (w_dev w)"
    using arg_cong [OF d, of maxCubeMapSize] by (simp add: upload_dev_def paths_dev_def)
  show "front_diags w' = front_diags w"
    using assms by (simp add: upload_view_def)
qed

lemma front_diags_member:
  "\<not> backend_diagnostic d \<Longrightarrow> d \<in> set (w_diags w) \<longleftrightarrow> d \<in> set (front_diags w)"
  by (simp add: front_diags_def)


subsection \<open>The constructor\<close>

lemma returned_eq: "\<not> isl r \<Longrightarrow> r = Inr (returned r)"
  by (cases r) (simp_all add: returned_def)

lemma Texture_constructor_unfold:
  "Texture_constructor U graphicsDevice new_id options =
     (let t = constructed_texture U new_id options;
          w0 = Debug_assert (if dimension t = TEXTUREDIMENSION_CUBE then slices t = 6 else True)
                 Assert_CubeSlices \<lparr>w_dev = graphicsDevice, w_tex = t, w_diags = []\<rparr>
      in try_bind (dirtyAll w0)
           (\<lambda>w1.
              let w2 = ingest_levels options w1
              in try_bind
                   (if levels (w_tex w2) \<noteq> []
                    then upload U (case opt_immediate options of None \<Rightarrow> False | Some b \<Rightarrow> b) w2
                    else Inr w2)
                   (\<lambda>w3. Inr (w3\<lparr>w_dev := (w_dev w3)
                            \<lparr>textures := textures (w_dev w3) @ [tex_id (w_tex w3)]\<rparr>\<rparr>))))"
  by (simp add: Texture_constructor_def constructed_texture_def ingest_levels_def Let_def)

lemma dirtyAll_eq:
  "dirtyAll w =
     (if has_device (w_tex w)
      then Inr (w\<lparr>w_tex := (w_tex w)
                  \<lparr>operation := operation (w_tex w) OR TEXTURE_OPERATION_UPLOAD,
                   impl := webgl_propertyChanged PROPERTY_ALL (impl (w_tex w)),
                   renderVersionDirty := renderVersion (w_dev w)\<rparr>\<rparr>)
      else Inl TypeError)"
  by (simp add: dirtyAll_def propertyChanged_def Let_def)

lemma propertyChanged_eq:
  "propertyChanged flag w =
     (if has_device (w_tex w)
      then Inr (w\<lparr>w_tex := (w_tex w)
                  \<lparr>impl := webgl_propertyChanged flag (impl (w_tex w)),
                   renderVersionDirty := renderVersion (w_dev w)\<rparr>\<rparr>)
      else Inl TypeError)"
  by (simp add: propertyChanged_def Let_def)

text \<open>
  The fields of the texture that say what kind of texture it is, and the diagnostics other
  than those about levels.
\<close>

lemma ingest_level_keeps:
  "dimension (w_tex (ingest_level e w)) = dimension (w_tex w)"
  "slices (w_tex (ingest_level e w)) = slices (w_tex w)"
  "mipmaps (w_tex (ingest_level e w)) = mipmaps (w_tex w)"
  "minFilter (w_tex (ingest_level e w)) = minFilter (w_tex w)"
  "magFilter (w_tex (ingest_level e w)) = magFilter (w_tex w)"
  "Assert_CubeSlices \<in> set (w_diags (ingest_level e w)) \<longleftrightarrow> Assert_CubeSlices \<in> set (w_diags w)"
  by (auto simp: ingest_level_def Let_def Debug_assert_def split: prod.splits level_arg.splits)

lemma ingest_levels_keeps:
  "dimension (w_tex (ingest_levels options w)) = dimension (w_tex w)
   \<and> slices (w_tex (ingest_levels options w)) = slices (w_tex w)
   \<and> mipmaps (w_tex (ingest_levels options w)) = mipmaps (w_tex w)
   \<and> minFilter (w_tex (ingest_levels options w)) = minFilter (w_tex w)
   \<and> magFilter (w_tex (ingest_levels options w)) = magFilter (w_tex w)
   \<and> (Assert_CubeSlices \<in> set (w_diags (ingest_levels options w))
        \<longleftrightarrow> Assert_CubeSlices \<in> set (w_diags w))"
proof (cases "opt_levels options")
  case None
  then show ?thesis by (simp add: ingest_levels_def)
next
  case (Some ls)
  let ?Q = "\<lambda>s. dimension (w_tex s) = dimension (w_tex w)
   \<and> slices (w_tex s) = slices (w_tex w)
   \<and> mipmaps (w_tex s) = mipmaps (w_tex w)
   \<and> minFilter (w_tex s) = minFilter (w_tex w)
   \<and> magFilter (w_tex s) = magFilter (w_tex w)
   \<and> (Assert_CubeSlices \<in> set (w_diags s) \<longleftrightarrow> Assert_CubeSlices \<in> set (w_diags w))"
  have "?Q (fold ingest_level (zip (map int [0..<length ls]) ls) w)"
    by (rule fold_invariant [where Q = ?Q]) (simp_all add: ingest_level_keeps)
  with Some show ?thesis by (simp add: ingest_levels_def)
qed

lemma constructor_result:
  assumes "Texture_constructor U graphicsDevice new_id options = Inr w"
  shows "dimension (w_tex w) = dimension (constructed_texture U new_id options)"
    and "slices (w_tex w) = slices (constructed_texture U new_id options)"
    and "mipmaps (w_tex w) = mipmaps (constructed_texture U new_id options)"
    and "minFilter (w_tex w) = minFilter (constructed_texture U new_id options)"
    and "magFilter (w_tex w) = magFilter (constructed_texture U new_id options)"
    and "Assert_CubeSlices \<in> set (w_diags w) \<longleftrightarrow>
           (dimension (constructed_texture U new_id options) = TEXTUREDIMENSION_CUBE
            \<and> slices (constructed_texture U new_id options) \<noteq> 6)"
proof -
  let ?t = "constructed_texture U new_id options"
  let ?w0 = "Debug_assert (if dimension ?t = TEXTUREDIMENSION_CUBE then slices ?t = 6 else True)
               Assert_CubeSlices \<lparr>w_dev = graphicsDevice, w_tex = ?t, w_diags = []\<rparr>"
  from assms obtain w1 w3 where w1: "dirtyAll ?w0 = Inr w1"
    and w3: "(if levels (w_tex (ingest_levels options w1)) \<noteq> []
              then upload U (case opt_immediate options of None \<Rightarrow> False | Some b \<Rightarrow> b)
                     (ingest_levels options w1)
              else Inr (ingest_levels options w1)) = Inr w3"
    and w: "w = w3\<lparr>w_dev := (w_dev w3)\<lparr>textures := textures (w_dev w3) @ [tex_id (w_tex w3)]\<rparr>\<rparr>"
    by (auto simp: Texture_constructor_unfold Let_def try_bind_eq_Inr)
  let ?w2 = "ingest_levels options w1"
  have tex0: "w_tex ?w0 = ?t" and diags0: "w_diags ?w0 =
      (if dimension ?t = TEXTUREDIMENSION_CUBE \<and> slices ?t \<noteq> 6 then [Assert_CubeSlices] else [])"
    by (simp_all add: Debug_assert_def)
  from w1 have w1_eq: "w1 = ?w0\<lparr>w_tex := (w_tex ?w0)
                  \<lparr>operation := operation (w_tex ?w0) OR TEXTURE_OPERATION_UPLOAD,
                   impl := webgl_propertyChanged PROPERTY_ALL (impl (w_tex ?w0)),
                   renderVersionDirty := renderVersion (w_dev ?w0)\<rparr>\<rparr>"
    by (simp add: dirtyAll_eq split: if_splits)
  have k1: "dimension (w_tex w1) = dimension ?t" "slices (w_tex w1) = slices ?t"
    "mipmaps (w_tex w1) = mipmaps ?t" "minFilter (w_tex w1) = minFilter ?t"
    "magFilter (w_tex w1) = magFilter ?t" "w_diags w1 = w_diags ?w0"
    by (subst w1_eq, simp add: tex0)+
  note k2 = ingest_levels_keeps [of options w1]
  have view: "upload_view w3 = upload_view ?w2"
    using w3 by (auto split: if_splits dest: upload_upload_view)
  note tx = upload_view_tex [OF view] and dv = upload_view_dev [OF view]
  have cube_diag: "Assert_CubeSlices \<in> set (w_diags w3) \<longleftrightarrow> Assert_CubeSlices \<in> set (w_diags ?w2)"
    using dv(6) by (simp add: front_diags_member backend_diagnostic_def)
  show "dimension (w_tex w) = dimension ?t" using w tx k2 k1 by simp
  show "slices (w_tex w) = slices ?t" using w tx k2 k1 by simp
  show "mipmaps (w_tex w) = mipmaps ?t" using w tx k2 k1 by simp
  show "minFilter (w_tex w) = minFilter ?t" using w tx k2 k1 by simp
  show "magFilter (w_tex w) = magFilter ?t" using w tx k2 k1 by simp
  show "Assert_CubeSlices \<in> set (w_diags w) \<longleftrightarrow>
           (dimension ?t = TEXTUREDIMENSION_CUBE \<and> slices ?t \<noteq> 6)"
    using w cube_diag k2 k1(6) diags0 by simp
qed

lemma constructed_texture_integer:
  assumes "isIntegerPixelFormat U (case opt_format options of None \<Rightarrow> PIXELFORMAT_RGBA8 | Some f \<Rightarrow> f)"
  shows "mipmaps (constructed_texture U new_id options) = False"
    and "minFilter (constructed_texture U new_id options) = FILTER_NEAREST"
    and "magFilter (constructed_texture U new_id options) = FILTER_NEAREST"
  using assms by (simp_all add: constructed_texture_def Let_def)

lemma constructor_returns:
  assumes "opt_levels options = None \<or> opt_immediate options \<noteq> Some True"
  shows "\<exists>w. Texture_constructor U graphicsDevice new_id options = Inr w"
proof -
  have imm: "opt_immediate options \<noteq> Some True \<Longrightarrow>
      (case opt_immediate options of None \<Rightarrow> False | Some b \<Rightarrow> b) = False"
    by (cases "opt_immediate options") auto
  have nolev: "\<And>w. opt_levels options = None \<Longrightarrow> ingest_levels options w = w"
    by (simp add: ingest_levels_def)
  have dev: "has_device (constructed_texture U new_id options)"
    by (simp add: constructed_texture_def Let_def)
  have lev: "levels (constructed_texture U new_id options) = []"
    by (simp add: constructed_texture_def Let_def)
  from assms show ?thesis
  proof
    assume "opt_levels options = None"
    then show ?thesis
      by (simp add: Texture_constructor_unfold Let_def dirtyAll_eq Debug_assert_def dev lev nolev)
  next
    assume "opt_immediate options \<noteq> Some True"
    then show ?thesis
      by (simp add: Texture_constructor_unfold Let_def dirtyAll_eq Debug_assert_def dev imm
          upload_def uploadImmediate_def)
  qed
qed

text \<open>
  Claim C4. Whenever the constructor returns a texture for options whose format (RGBA8
  when none is given) is an integer pixel format, the texture has mipmaps off and both
  filters FILTER_NEAREST, whatever mipmaps, minFilter and magFilter the options ask for.
  (\<open>constructor_returns\<close>: the constructor returns whenever no levels are given or the
  upload is deferred.)
\<close>

theorem constructor_integer_format:
  assumes "Texture_constructor U graphicsDevice new_id options = Inr w"
    and "isIntegerPixelFormat U (case opt_format options of None \<Rightarrow> PIXELFORMAT_RGBA8 | Some f \<Rightarrow> f)"
  shows "mipmaps (w_tex w) = False \<and> minFilter (w_tex w) = FILTER_NEAREST
         \<and> magFilter (w_tex w) = FILTER_NEAREST"
  using constructor_result(3-5) [OF assms(1)] constructed_texture_integer [OF assms(2)]
  by simp

theorem constructor_integer_format_witness:
  "Texture_constructor sample_externals sample_device 0 integer_options = Inr integer_world
   \<and> opt_format integer_options = Some PIXELFORMAT_R32U
   \<and> opt_mipmaps integer_options = Some True
   \<and> opt_minFilter integer_options = Some FILTER_LINEAR_MIPMAP_LINEAR
   \<and> opt_magFilter integer_options = Some FILTER_LINEAR
   \<and> isIntegerPixelFormat sample_externals PIXELFORMAT_R32U
   \<and> mipmaps (w_tex integer_world) = False
   \<and> minFilter (w_tex integer_world) = FILTER_NEAREST
   \<and> magFilter (w_tex integer_world) = FILTER_NEAREST"
proof -
  have "\<not> isl (Texture_constructor sample_externals sample_device 0 integer_options)"
    by code_simp
  then have ret: "Texture_constructor sample_externals sample_device 0 integer_options = Inr integer_world"
    unfolding integer_world_def by (rule returned_eq)
  have opts: "opt_format integer_options = Some PIXELFORMAT_R32U"
    "opt_mipmaps integer_options = Some True"
    "opt_minFilter integer_options = Some FILTER_LINEAR_MIPMAP_LINEAR"
    "opt_magFilter integer_options = Some FILTER_LINEAR"
    by (simp_all add: integer_options_def no_options_def)
  have int: "isIntegerPixelFormat sample_externals PIXELFORMAT_R32U"
    by code_simp
  from constructor_integer_format [OF ret] opts int ret show ?thesis by simp
qed


subsection \<open>Destroying a texture\<close>

lemma webgl_destroy_keeps:
  "vram (w_dev (webgl_destroy w)) = vram (w_dev w)"
  "textures (w_dev (webgl_destroy w)) = textures (w_dev w)"
  "gpuSize_recorded (w_tex (webgl_destroy w)) = gpuSize_recorded (w_tex w)"
  "profilerHint (w_tex (webgl_destroy w)) = profilerHint (w_tex w)"
  "has_device (w_tex (webgl_destroy w)) = has_device (w_tex w)"
  "dimension (w_tex (webgl_destroy w)) = dimension (w_tex w)"
  "slices (w_tex (webgl_destroy w)) = slices (w_tex w)"
  "w_diags (webgl_destroy w) = w_diags w"
  by (simp_all add: webgl_destroy_def)

lemma destroy_has_device [simp]: "has_device (w_tex (destroy w)) = False"
  by (simp add: destroy_def Let_def webgl_destroy_keeps)

lemma destroy_vram:
  "has_device (w_tex w) \<Longrightarrow>
   vram (w_dev (destroy w)) =
     adjustVramSizeTracking (w_tex w) (vram (w_dev w)) (- gpuSize_recorded (w_tex w))"
  by (simp add: destroy_def Let_def webgl_destroy_keeps
      adjustVramSizeTracking_hint [OF webgl_destroy_keeps(4)])

text \<open>
  Claim C3. \<^verbatim>\<open>destroy\<close> on a live texture takes exactly the recorded \<^verbatim>\<open>_gpuSize\<close>
  out of the VRAM total (and out of the texture's category); a second \<^verbatim>\<open>destroy\<close>
  changes nothing at all, the VRAM statistics included.
\<close>

theorem destroy_accounting:
  "(has_device (w_tex w) \<longrightarrow>
      tex (vram (w_dev (destroy w))) = tex (vram (w_dev w)) - gpuSize_recorded (w_tex w)
      \<and> vram (w_dev (destroy w)) =
          adjustVramSizeTracking (w_tex w) (vram (w_dev w)) (- gpuSize_recorded (w_tex w)))
   \<and> destroy (destroy w) = destroy w
   \<and> vram (w_dev (destroy (destroy w))) = vram (w_dev (destroy w))"
proof -
  have twice: "destroy (destroy w) = destroy w"
    by (subst (1) destroy_def) simp
  show ?thesis
    using twice by (simp add: destroy_vram)
qed

theorem destroy_accounting_witness:
  "has_device (w_tex plain_uploaded)
   \<and> gpuSize_recorded (w_tex plain_uploaded) = 256
   \<and> tex (vram (w_dev plain_uploaded)) = 256
   \<and> tex (vram (w_dev (destroy plain_uploaded))) = 0
   \<and> tex (vram (w_dev (destroy (destroy plain_uploaded)))) = 0
   \<and> destroy (destroy plain_uploaded) = destroy plain_uploaded"
proof -
  have live: "has_device (w_tex plain_uploaded)" by code_simp
  have size: "gpuSize_recorded (w_tex plain_uploaded) = 256" by code_simp
  have total: "tex (vram (w_dev plain_uploaded)) = 256" by code_simp
  from destroy_accounting [of plain_uploaded] live size total show ?thesis by simp
qed


subsection \<open>An upload of a texture without levels keeps its size\<close>

lemma w_tex_gl_do [simp]: "w_tex (gl_do c w) = w_tex w"
  by (simp add: gl_do_def)

lemma w_tex_setUnpackFlipY [simp]: "w_tex (setUnpackFlipY b w) = w_tex w"
  by (simp add: setUnpackFlipY_def)

lemma w_tex_setUnpackPremultiplyAlpha [simp]: "w_tex (setUnpackPremultiplyAlpha b w) = w_tex w"
  by (simp add: setUnpackPremultiplyAlpha_def)

lemma w_tex_Debug_warn [simp]: "w_tex (Debug_warn d w) = w_tex w"
  by (simp add: Debug_warn_def)

lemma w_tex_Debug_error [simp]: "w_tex (Debug_error d w) = w_tex w"
  by (simp add: Debug_error_def)

lemma w_tex_Debug_assert [simp]: "w_tex (Debug_assert c d w) = w_tex w"
  by (simp add: Debug_assert_def)

lemma size_set_glCreated [simp]:
  "width (w_tex (set_glCreated b w)) = width (w_tex w)"
  "height (w_tex (set_glCreated b w)) = height (w_tex w)"
  by (simp_all add: set_glCreated_def)

lemma size_uploadTexture2D_absent:
  "width (w_tex (uploadTexture2D U l None w)) = width (w_tex w)"
  "height (w_tex (uploadTexture2D U l None w)) = height (w_tex w)"
  by (simp_all add: uploadTexture2D_def Let_def)

lemma size_uploadTexture3D:
  "width (w_tex (uploadTexture3D l obj w)) = width (w_tex w)"
  "height (w_tex (uploadTexture3D l obj w)) = height (w_tex w)"
  by (simp_all add: uploadTexture3D_def Let_def)

lemma size_generateMipmapsIfNeeded:
  "width (w_tex (generateMipmapsIfNeeded tr w)) = width (w_tex w)"
  "height (w_tex (generateMipmapsIfNeeded tr w)) = height (w_tex w)"
  by (simp_all add: generateMipmapsIfNeeded_def Let_def)

lemma no_levels_dirty_slices:
  assumes "levels (w_tex w) = []"
    and "for_each (upload_dirty_slice U rml l) ss (tr, w) = Inr (tr', w')"
  shows "w' = w"
proof (cases ss)
  case Nil
  with assms(2) show ?thesis by simp
next
  case (Cons x xs)
  have "upload_dirty_slice U rml l x (tr, w) = Inl TypeError"
    using assms(1) by (simp add: upload_dirty_slice_def Let_def)
  with assms(2) Cons show ?thesis by simp
qed

lemma no_levels_dirty_level:
  assumes "levels (w_tex w) = []"
    and "upload_dirty_level U rml entry (tr, w) = Inr (tr', w')"
  shows "w' = w"
  using assms
  unfolding upload_dirty_level_def Let_def
  by (auto split: prod.splits dirty_entry.splits if_splits dest: no_levels_dirty_slices)

lemma no_levels_dirty_levels:
  assumes "levels (w_tex w) = []"
    and "for_each (upload_dirty_level U rml) es (tr, w) = Inr (tr', w')"
  shows "w' = w"
proof -
  have "snd (tr', w') = w"
  proof (rule for_each_invariant [where Q = "\<lambda>s. snd s = w", OF _ _ assms(2)])
    fix x s s'
    assume "upload_dirty_level U rml x s = Inr s'" "snd s = w"
    then show "snd s' = w"
      using no_levels_dirty_level [OF assms(1), of U rml x "fst s" "fst s'" "snd s'"]
      by (cases s) simp
  qed simp
  then show ?thesis by simp
qed

lemma no_levels_full_level:
  assumes "levels (w_tex w) = []"
    and "upload_full_level U rml l (a, m, w) = Inr (a', m', w')"
  shows "levels (w_tex w') = [] \<and> width (w_tex w') = width (w_tex w)
         \<and> height (w_tex w') = height (w_tex w)"
proof -
  have view: "paths_view w' = paths_view w"
    using assms(2) by (rule paths_view_upload_full_level)
  have "levels (w_tex w') = []"
    using paths_view_tex(8) [OF view] assms(1) by simp
  moreover have "width (w_tex w') = width (w_tex w) \<and> height (w_tex w') = height (w_tex w)"
    using assms
    unfolding upload_full_level_def Let_def
    by (auto simp: size_uploadTexture2D_absent size_uploadTexture3D
             split: dimension.splits if_splits)
  ultimately show ?thesis by simp
qed

lemma no_levels_full_levels:
  assumes "levels (w_tex w) = []"
    and "for_each (upload_full_level U rml) ls (a, m, w) = Inr (a', m', w')"
  shows "width (w_tex w') = width (w_tex w) \<and> height (w_tex w') = height (w_tex w)"
proof -
  let ?Q = "\<lambda>s. levels (w_tex (snd (snd s))) = [] \<and> width (w_tex (snd (snd s))) = width (w_tex w)
                \<and> height (w_tex (snd (snd s))) = height (w_tex w)"
  have "?Q (a', m', w')"
  proof (rule for_each_invariant [where Q = ?Q, OF _ _ assms(2)])
    fix x s s'
    assume step: "upload_full_level U rml x s = Inr s'" and q: "?Q s"
    obtain a1 m1 w1 where s: "s = (a1, m1, w1)" by (cases s) auto
    obtain a2 m2 w2 where s': "s' = (a2, m2, w2)" by (cases s') auto
    from no_levels_full_level [of w1 U rml x a1 m1 a2 m2 w2] step q s s'
    show "?Q s'" by simp
  qed (simp add: assms(1))
  then show ?thesis by simp
qed

lemma no_levels_upload_paths:
  assumes "levels (w_tex w) = []" and "upload_paths U w = Inr w1"
  shows "width (w_tex w1) = width (w_tex w) \<and> height (w_tex w1) = height (w_tex w)"
  using assms unfolding upload_paths_def Let_def
  by (auto simp: try_bind_eq_Inr size_generateMipmapsIfNeeded split: if_splits
           dest: no_levels_dirty_levels no_levels_full_levels)

lemma no_levels_webgl_upload:
  assumes "levels (w_tex w) = []" and "webgl_upload U w = Inr w'"
  shows "width (w_tex w') = width (w_tex w) \<and> height (w_tex w') = height (w_tex w)"
proof -
  let ?w0 = "Debug_assert (has_device (w_tex w)) Assert_Destroyed w"
  have lev: "levels (w_tex ?w0) = []" using assms(1) by simp
  show ?thesis
  proof (cases "operation (w_tex w) = TEXTURE_OPERATION_NONE")
    case True
    with assms(2) show ?thesis by (auto simp: webgl_upload_none)
  next
    case False
    with assms(2) obtain w1 where paths: "upload_paths U ?w0 = Inr w1"
      and size: "width (w_tex w') = width (w_tex w1)" "height (w_tex w') = height (w_tex w1)"
      by (auto simp: webgl_upload_unfold Let_def try_bind_eq_Inr)
    from no_levels_upload_paths [OF lev paths] size show ?thesis by simp
  qed
qed

lemma size_initialize [simp]:
  "width (w_tex (initialize w)) = width (w_tex w)"
  "height (w_tex (initialize w)) = height (w_tex w)"
  "levels (w_tex (initialize w)) = levels (w_tex w)"
  by (simp_all add: initialize_def Let_def)

lemma no_levels_upload:
  assumes "levels (w_tex w) = []" and "upload U immediate w = Inr w'"
  shows "width (w_tex w') = width (w_tex w) \<and> height (w_tex w') = height (w_tex w)"
proof (cases immediate)
  case False
  with assms(2) show ?thesis by (auto simp: upload_def uploadImmediate_def)
next
  case True
  let ?wa = "w\<lparr>w_tex := (w_tex w)\<lparr>operation := operation (w_tex w) OR TEXTURE_OPERATION_UPLOAD\<rparr>\<rparr>"
  let ?w1 = "if \<not> glTexture (impl (w_tex ?wa)) then initialize ?wa else ?wa"
  let ?w2 = "gl_do (BindTexture (glTarget (impl (w_tex ?w1)))) ?w1"
  from assms(2) True have up: "webgl_upload U ?w2 = Inr w'"
    by (simp add: upload_def uploadImmediate_def Let_def split: if_splits)
  have "levels (w_tex ?w2) = []" using assms(1) by simp
  from no_levels_webgl_upload [OF this up] show ?thesis by simp
qed


subsection \<open>setSource\<close>

lemma setSource_unfold:
  "setSource U source immediate w =
     (let t0 = (w_tex w)\<lparr>levels := []\<rparr>
      in try_bind (checkSource source t0)
           (\<lambda>r. let t1 = assignSource source r t0
                in if invalid t1 \<noteq> fst r \<or> \<not> fst r
                   then upload U immediate (w\<lparr>w_tex := t1\<lparr>invalid := fst r\<rparr>\<rparr>)
                   else Inr (w\<lparr>w_tex := t1\<rparr>)))"
  unfolding setSource_def checkSource_def assignSource_def source_level_def Let_def
    case_prod_beta
  by (rule refl)

lemma assignSource_fields:
  "slices (assignSource source r t0) = slices t0"
  "dimension (assignSource source r t0) = dimension t0"
  "format (assignSource source r t0) = format t0"
  "mipmaps (assignSource source r t0) = mipmaps t0"
  "minFilter (assignSource source r t0) = minFilter t0"
  "magFilter (assignSource source r t0) = magFilter t0"
  "lockedMode (assignSource source r t0) = lockedMode t0"
  "has_device (assignSource source r t0) = has_device t0"
  "invalid (assignSource source r t0) = invalid t0"
  by (simp_all add: assignSource_def Let_def split_beta)

lemma assignSource_levels:
  "levels t0 = [] \<Longrightarrow>
   levels (assignSource source r t0) = (if fst r then [] else [(0, source_level source)])"
  by (simp add: assignSource_def Let_def split_beta)

lemma assignSource_size:
  "width (assignSource source r t0) = (if fst r then 4 else fst (snd r))"
  "height (assignSource source r t0) = (if fst r then 4 else snd (snd r))"
  by (simp_all add: assignSource_def Let_def split_beta)


lemma upload_deferred:
  "upload U False w =
     Inr (w\<lparr>w_tex := (w_tex w)\<lparr>operation := operation (w_tex w) OR TEXTURE_OPERATION_UPLOAD\<rparr>\<rparr>)"
  by (simp add: upload_def uploadImmediate_def)

lemma setSource_result:
  assumes "setSource U source immediate w = Inr w'"
  obtains r where "checkSource source ((w_tex w)\<lparr>levels := []\<rparr>) = Inr r"
    and "invalid (w_tex w') = fst r"
    and "levels (w_tex w') = (if fst r then [] else [(0, source_level source)])"
    and "slices (w_tex w') = slices (w_tex w)"
    and "dimension (w_tex w') = dimension (w_tex w)"
    and "format (w_tex w') = format (w_tex w)"
    and "mipmaps (w_tex w') = mipmaps (w_tex w)"
    and "minFilter (w_tex w') = minFilter (w_tex w)"
    and "magFilter (w_tex w') = magFilter (w_tex w)"
    and "lockedMode (w_tex w') = lockedMode (w_tex w)"
    and "has_device (w_tex w') = has_device (w_tex w)"
    and "fst r \<Longrightarrow> width (w_tex w') = 4 \<and> height (w_tex w') = 4"
    and "\<not> fst r \<Longrightarrow> \<not> immediate \<Longrightarrow>
           width (w_tex w') = fst (snd r) \<and> height (w_tex w') = snd (snd r)"
proof -
  let ?t0 = "(w_tex w)\<lparr>levels := []\<rparr>"
  from assms obtain r where chk: "checkSource source ?t0 = Inr r"
    and res: "(if invalid (assignSource source r ?t0) \<noteq> fst r \<or> \<not> fst r
               then upload U immediate (w\<lparr>w_tex := (assignSource source r ?t0)\<lparr>invalid := fst r\<rparr>\<rparr>)
               else Inr (w\<lparr>w_tex := assignSource source r ?t0\<rparr>)) = Inr w'"
    by (auto simp: setSource_unfold Let_def try_bind_eq_Inr)
  let ?t1 = "assignSource source r ?t0"
  let ?wA = "w\<lparr>w_tex := ?t1\<lparr>invalid := fst r\<rparr>\<rparr>"
  have lev1: "levels ?t1 = (if fst r then [] else [(0, source_level source)])"
    by (rule assignSource_levels) simp
  note f1 = assignSource_fields [of source r ?t0] and s1 = assignSource_size [of source r ?t0]
  show thesis
  proof (cases "invalid ?t1 \<noteq> fst r \<or> \<not> fst r")
    case False
    with res have w': "w' = w\<lparr>w_tex := ?t1\<rparr>" and inv: "invalid ?t1 = fst r" "fst r"
      by auto
    show thesis
      by (rule that [OF chk]) (simp_all add: w' inv lev1 f1 s1)
  next
    case True
    with res have up: "upload U immediate ?wA = Inr w'" by simp
    have view: "upload_view w' = upload_view ?wA" using up by (rule upload_upload_view)
    note tx = upload_view_tex [OF view]
    have size_inv: "width (w_tex w') = 4 \<and> height (w_tex w') = 4" if "fst r"
    proof -
      have "levels (w_tex ?wA) = []" using that lev1 by simp
      from no_levels_upload [OF this up] that show ?thesis by (simp add: s1)
    qed
    have size_def: "width (w_tex w') = fst (snd r) \<and> height (w_tex w') = snd (snd r)"
      if "\<not> fst r" "\<not> immediate"
      using up that by (auto simp: upload_deferred s1)
    show thesis
      by (rule that [OF chk]) (simp_all add: tx lev1 f1 size_inv size_def)
  qed
qed

text \<open>
  Claim C10. Whenever \<^verbatim>\<open>setSource\<close> returns, the slice count is the one the texture
  had, and so are the dimension, format, mipmaps flag, filters, lock mode and device. When
  the source is invalid the size is 4 by 4 and the levels map is empty; when it is valid
  the levels map holds level 0 only, the source, and (the reupload deferred) width and
  height are the ones read from the source.
\<close>

theorem setSource_keeps_slices:
  assumes "setSource U source immediate w = Inr w'"
  shows "slices (w_tex w') = slices (w_tex w)
         \<and> dimension (w_tex w') = dimension (w_tex w)
         \<and> format (w_tex w') = format (w_tex w)
         \<and> mipmaps (w_tex w') = mipmaps (w_tex w)
         \<and> minFilter (w_tex w') = minFilter (w_tex w)
         \<and> magFilter (w_tex w') = magFilter (w_tex w)
         \<and> lockedMode (w_tex w') = lockedMode (w_tex w)
         \<and> has_device (w_tex w') = has_device (w_tex w)
         \<and> (if invalid (w_tex w')
             then width (w_tex w') = 4 \<and> height (w_tex w') = 4 \<and> levels (w_tex w') = []
             else levels (w_tex w') = [(0, source_level source)]
                  \<and> (immediate \<or>
                      checkSource source ((w_tex w)\<lparr>levels := []\<rparr>)
                        = Inr (False, width (w_tex w'), height (w_tex w'))))"
proof (rule setSource_result [OF assms])
  fix r
  assume chk: "checkSource source ((w_tex w)\<lparr>levels := []\<rparr>) = Inr r"
    and inv: "invalid (w_tex w') = fst r"
    and lev: "levels (w_tex w') = (if fst r then [] else [(0, source_level source)])"
    and frame: "slices (w_tex w') = slices (w_tex w)" "dimension (w_tex w') = dimension (w_tex w)"
      "format (w_tex w') = format (w_tex w)" "mipmaps (w_tex w') = mipmaps (w_tex w)"
      "minFilter (w_tex w') = minFilter (w_tex w)" "magFilter (w_tex w') = magFilter (w_tex w)"
      "lockedMode (w_tex w') = lockedMode (w_tex w)" "has_device (w_tex w') = has_device (w_tex w)"
    and bad: "fst r \<Longrightarrow> width (w_tex w') = 4 \<and> height (w_tex w') = 4"
    and good: "\<not> fst r \<Longrightarrow> \<not> immediate \<Longrightarrow>
           width (w_tex w') = fst (snd r) \<and> height (w_tex w') = snd (snd r)"
  show ?thesis
  proof (cases "fst r")
    case True
    with inv lev frame bad show ?thesis by simp
  next
    case False
    have "immediate \<or> r = (False, width (w_tex w'), height (w_tex w'))"
      using good [OF False] False by (cases r) auto
    with False inv lev frame chk show ?thesis by auto
  qed
qed

theorem setSource_keeps_slices_witness:
  "\<not> isl (setSource sample_externals mismatched_faces True array_world)
   \<and> slices (w_tex array_world) = 4
   \<and> slices (w_tex (returned (setSource sample_externals mismatched_faces True array_world))) = 4
   \<and> invalid (w_tex (returned (setSource sample_externals mismatched_faces True array_world)))
   \<and> width (w_tex (returned (setSource sample_externals mismatched_faces True array_world))) = 4
   \<and> height (w_tex (returned (setSource sample_externals mismatched_faces True array_world))) = 4
   \<and> levels (w_tex (returned (setSource sample_externals mismatched_faces True array_world))) = []
   \<and> \<not> isl (setSource sample_externals (SourceElement canvas16) False plain_world)
   \<and> slices (w_tex plain_world) = 1
   \<and> slices (w_tex (returned (setSource sample_externals (SourceElement canvas16) False plain_world))) = 1
   \<and> \<not> invalid (w_tex (returned (setSource sample_externals (SourceElement canvas16) False plain_world)))
   \<and> levels (w_tex (returned (setSource sample_externals (SourceElement canvas16) False plain_world)))
       = [(0, Single (Some (Element canvas16)))]
   \<and> width (w_tex (returned (setSource sample_externals (SourceElement canvas16) False plain_world))) = 16"
proof -
  let ?a = "setSource sample_externals mismatched_faces True array_world"
  let ?b = "setSource sample_externals (SourceElement canvas16) False plain_world"
  have ra: "\<not> isl ?a" and rb: "\<not> isl ?b" by code_simp+
  have sa: "slices (w_tex array_world) = 4" and sb: "slices (w_tex plain_world) = 1"
    by code_simp+
  have ia: "invalid (w_tex (returned ?a))" and ib: "\<not> invalid (w_tex (returned ?b))"
    by code_simp+
  have wb: "width (w_tex (returned ?b)) = 16" by code_simp
  have lb: "source_level (SourceElement canvas16) = Single (Some (Element canvas16))"
    by (simp add: source_level_def)
  from setSource_keeps_slices [OF returned_eq [OF ra]]
       setSource_keeps_slices [OF returned_eq [OF rb]]
       ra rb sa sb ia ib wb lb
  show ?thesis by simp
qed


subsection \<open>lock and unlock\<close>

lemma getCubemapOrArraySlice_fields:
  assumes "getCubemapOrArraySlice U lvl slice t = Inr t'"
  shows "slices t' = slices t" "dimension t' = dimension t" "lockedMode t' = lockedMode t"
    "operation t' = operation t" "width t' = width t" "height t' = height t"
    "mipmaps t' = mipmaps t" "has_device t' = has_device t"
  using assms by (auto simp: getCubemapOrArraySlice_def Let_def split: if_splits)

lemma getCubemapOrArraySlice_dirty:
  assumes "getCubemapOrArraySlice U lvl slice t = Inr t'"
  shows "dirtyLevels t' =
           (case map_of (dirtyLevels t) lvl of
              None \<Rightarrow> AList.update lvl (DirtySlices []) (dirtyLevels t)
            | Some (DirtyFlag False) \<Rightarrow> AList.update lvl (DirtySlices []) (dirtyLevels t)
            | _ \<Rightarrow> dirtyLevels t)"
  using assms by (auto simp: getCubemapOrArraySlice_def Let_def split: if_splits)

lemma getSimpleLevel_fields:
  "slices (getSimpleLevel U lvl t) = slices t" "dimension (getSimpleLevel U lvl t) = dimension t"
  "lockedMode (getSimpleLevel U lvl t) = lockedMode t" "operation (getSimpleLevel U lvl t) = operation t"
  by (simp_all add: getSimpleLevel_def Let_def)

lemma lock_result:
  assumes "lock U options w = Inr w'"
  shows "w_diags w' = w_diags w @ lock_diagnostics options (w_tex w)"
    and "w_dev w' = w_dev w"
    and "slices (w_tex w') = slices (w_tex w)"
    and "dimension (w_tex w') = dimension (w_tex w)"
    and "lockedMode (w_tex w') = (case lock_mode options of None \<Rightarrow> TEXTURELOCK_WRITE | Some m \<Rightarrow> m)"
proof -
  let ?lvl = "case lock_level options of None \<Rightarrow> 0 | Some l \<Rightarrow> l"
  let ?slice = "case lock_slice options of None \<Rightarrow> 0 | Some s \<Rightarrow> s"
  let ?lmode = "case lock_mode options of None \<Rightarrow> TEXTURELOCK_WRITE | Some m \<Rightarrow> m"
  let ?t = "w_tex w"
  let ?t1 = "?t\<lparr>lockedMode := ?lmode\<rparr>"
  let ?w4 = "Debug_assert (?slice \<ge> 0 \<and> ?slice < slices ?t) Assert_SliceBounds
               (Debug_assert (?slice = 0 \<and> \<not> (cubemap ?t \<or> array ?t)) Assert_LockSlice
                  (Debug_assert (?lmode = TEXTURELOCK_READ \<or> ?lmode = TEXTURELOCK_WRITE) Assert_LockMode
                     (Debug_assert (lockedMode ?t = TEXTURELOCK_NONE) Assert_AlreadyLocked w)))"
  from assms obtain t2 where
    t2: "(if cubemap ?t1 \<or> array ?t1 then getCubemapOrArraySlice U ?lvl ?slice ?t1
          else Inr (getSimpleLevel U ?lvl ?t1)) = Inr t2"
    and w': "w' = ?w4\<lparr>w_tex := t2\<lparr>operation := operation t2 OR TEXTURE_OPERATION_UPLOAD_PARTIAL\<rparr>\<rparr>"
    by (auto simp: lock_def Let_def try_bind_eq_Inr)
  have f: "slices t2 = slices ?t \<and> dimension t2 = dimension ?t \<and> lockedMode t2 = ?lmode"
    using t2 by (auto split: if_splits simp: getSimpleLevel_fields
        dest: getCubemapOrArraySlice_fields)
  show "w_diags w' = w_diags w @ lock_diagnostics options (w_tex w)"
    by (simp add: w' lock_diagnostics_def Let_def Debug_assert_def)
  show "w_dev w' = w_dev w" by (simp add: w' Debug_assert_def)
  show "slices (w_tex w') = slices (w_tex w)" using f by (simp add: w')
  show "dimension (w_tex w') = dimension (w_tex w)" using f by (simp add: w')
  show "lockedMode (w_tex w') = ?lmode" using f by (simp add: w')
qed

lemma lock_dirty_slices:
  assumes "lock U options w = Inr w'" and "cubemap (w_tex w) \<or> array (w_tex w)"
  shows "dirtyLevels (w_tex w') =
           (let lvl = (case lock_level options of None \<Rightarrow> 0 | Some l \<Rightarrow> l)
            in case map_of (dirtyLevels (w_tex w)) lvl of
              None \<Rightarrow> AList.update lvl (DirtySlices []) (dirtyLevels (w_tex w))
            | Some (DirtyFlag False) \<Rightarrow> AList.update lvl (DirtySlices []) (dirtyLevels (w_tex w))
            | _ \<Rightarrow> dirtyLevels (w_tex w))"
proof -
  let ?lvl = "case lock_level options of None \<Rightarrow> 0 | Some l \<Rightarrow> l"
  let ?slice = "case lock_slice options of None \<Rightarrow> 0 | Some s \<Rightarrow> s"
  let ?lmode = "case lock_mode options of None \<Rightarrow> TEXTURELOCK_WRITE | Some m \<Rightarrow> m"
  let ?t1 = "(w_tex w)\<lparr>lockedMode := ?lmode\<rparr>"
  from assms obtain t2 where t2: "getCubemapOrArraySlice U ?lvl ?slice ?t1 = Inr t2"
    and w': "dirtyLevels (w_tex w') = dirtyLevels t2"
    by (auto simp: lock_def Let_def try_bind_eq_Inr cubemap_def array_def)
  from getCubemapOrArraySlice_dirty [OF t2] w' show ?thesis
    by (simp add: Let_def split: option.splits dirty_entry.splits bool.splits)
qed

lemma lock_sliced_texture_diagnostic:
  assumes "lock U options w = Inr w'" and "cubemap (w_tex w) \<or> array (w_tex w)"
  shows "Assert_LockSlice \<in> set (w_diags w')"
  using lock_result(1) [OF assms(1)] assms(2) by (auto simp: lock_diagnostics_def Let_def)

lemma unlock_result:
  assumes "unlock U immediate w = Inr w'"
  shows "slices (w_tex w') = slices (w_tex w)" and "dimension (w_tex w') = dimension (w_tex w)"
    and "lockedMode (w_tex w') = TEXTURELOCK_NONE"
proof -
  let ?w1 = "if lockedMode (w_tex w) = TEXTURELOCK_NONE then Debug_warn Warn_UnlockNotLocked w else w"
  from assms obtain w2 where
    w2: "(if lockedMode (w_tex ?w1) = TEXTURELOCK_WRITE then upload U immediate ?w1 else Inr ?w1) = Inr w2"
    and w': "w' = w2\<lparr>w_tex := (w_tex w2)\<lparr>lockedMode := TEXTURELOCK_NONE\<rparr>\<rparr>"
    by (auto simp: unlock_def Let_def try_bind_eq_Inr)
  have "slices (w_tex w2) = slices (w_tex ?w1) \<and> dimension (w_tex w2) = dimension (w_tex ?w1)"
  proof (cases "lockedMode (w_tex ?w1) = TEXTURELOCK_WRITE")
    case True
    with w2 have "upload U immediate ?w1 = Inr w2" by simp
    then have "upload_view w2 = upload_view ?w1" by (rule upload_upload_view)
    from upload_view_tex(7,8) [OF this] show ?thesis by simp
  next
    case False
    with w2 show ?thesis by simp
  qed
  then show "slices (w_tex w') = slices (w_tex w)" and "dimension (w_tex w') = dimension (w_tex w)"
    by (simp_all add: w')
  show "lockedMode (w_tex w') = TEXTURELOCK_NONE" by (simp add: w')
qed


subsection \<open>The property setters\<close>

lemma set_minFilter_integer:
  assumes "isIntegerPixelFormat U (format (w_tex w))"
  shows "set_minFilter U v w = Inr (if minFilter (w_tex w) \<noteq> v then Debug_warn Warn_MinFilterInteger w else w)"
  using assms by (simp add: set_minFilter_def Let_def)

lemma set_magFilter_integer:
  assumes "isIntegerPixelFormat U (format (w_tex w))"
  shows "set_magFilter U v w = Inr (if magFilter (w_tex w) \<noteq> v then Debug_warn Warn_MagFilterInteger w else w)"
  using assms by (simp add: set_magFilter_def Let_def)

text \<open>
  What the \<^verbatim>\<open>mipmaps\<close> setter does on an integer texture of a WebGL device when the
  value differs: it warns and keeps \<^verbatim>\<open>_mipmaps\<close>, and then updates the operation
  bitmask and marks every property dirty all the same.
\<close>

lemma set_mipmaps_integer:
  assumes "isIntegerPixelFormat U (format (w_tex w))" and "has_device (w_tex w)"
    and "\<not> isWebGPU (w_dev w)" and "mipmaps (w_tex w) \<noteq> v"
  shows "set_mipmaps U v w =
           Inr (w\<lparr>w_diags := w_diags w @ [Warn_MipmapsInteger],
                  w_tex := (w_tex w)
                    \<lparr>operation :=
                       (if v then operation (w_tex w) AND NOT TEXTURE_OPERATION_CLEAR_MIPS
                        else operation (w_tex w) OR TEXTURE_OPERATION_CLEAR_MIPS)
                       OR TEXTURE_OPERATION_UPLOAD,
                     impl := (impl (w_tex w))
                       \<lparr>dirtyParameterFlags := dirtyParameterFlags (impl (w_tex w)) OR PROPERTY_ALL\<rparr>,
                     renderVersionDirty := renderVersion (w_dev w)\<rparr>\<rparr>)"
  using assms
  by (simp add: set_mipmaps_def Let_def dirtyAll_eq Debug_warn_def webgl_propertyChanged_def)

lemma setter_shape:
  "set_minFilter U v w = Inr w' \<Longrightarrow>
     slices (w_tex w') = slices (w_tex w) \<and> dimension (w_tex w') = dimension (w_tex w)"
  "set_magFilter U v w = Inr w' \<Longrightarrow>
     slices (w_tex w') = slices (w_tex w) \<and> dimension (w_tex w') = dimension (w_tex w)"
  "set_mipmaps U b w = Inr w' \<Longrightarrow>
     slices (w_tex w') = slices (w_tex w) \<and> dimension (w_tex w') = dimension (w_tex w)"
  "slices (w_tex (set_flipY b w)) = slices (w_tex w) \<and>
     dimension (w_tex (set_flipY b w)) = dimension (w_tex w)"
  "slices (w_tex (set_premultiplyAlpha b w)) = slices (w_tex w) \<and>
     dimension (w_tex (set_premultiplyAlpha b w)) = dimension (w_tex w)"
  "loseContext w = Inr w' \<Longrightarrow>
     slices (w_tex w') = slices (w_tex w) \<and> dimension (w_tex w') = dimension (w_tex w)"
  "slices (w_tex (destroy w)) = slices (w_tex w) \<and>
     dimension (w_tex (destroy w)) = dimension (w_tex w)"
  by (auto simp: set_minFilter_def set_magFilter_def set_mipmaps_def set_flipY_def
      set_premultiplyAlpha_def loseContext_def destroy_def webgl_destroy_keeps
      Let_def propertyChanged_eq dirtyAll_eq Debug_warn_def
      split: if_splits)

subsection \<open>Runs of operations\<close>

lemma for_each_invariant_in:
  assumes step: "\<And>x s s'. x \<in> set xs \<Longrightarrow> body x s = Inr s' \<Longrightarrow> Q s \<Longrightarrow> Q s'"
    and start: "Q s"
    and run: "for_each body xs s = Inr s'"
  shows "Q s'"
  using step start run
proof (induction xs arbitrary: s)
  case Nil
  then show ?case by simp
next
  case (Cons x xs)
  from Cons.prems(3) obtain s1 where s1: "body x s = Inr s1" and rest: "for_each body xs s1 = Inr s'"
    by (auto split: sum.splits)
  have "Q s1" using Cons.prems(1) [OF _ s1 Cons.prems(2)] by simp
  moreover have "\<And>y t t'. y \<in> set xs \<Longrightarrow> body y t = Inr t' \<Longrightarrow> Q t \<Longrightarrow> Q t'"
    using Cons.prems(1) by (meson list.set_intros(2))
  ultimately show ?case using Cons.IH rest by blast
qed

lemma apply_op_shape:
  assumes "\<not> is_resize op" and "apply_op U op w = Inr w'"
  shows "slices (w_tex w') = slices (w_tex w) \<and> dimension (w_tex w') = dimension (w_tex w)"
proof (cases op)
  case (Op_lock options)
  with assms(2) show ?thesis using lock_result(3,4) by simp
next
  case (Op_unlock immediate)
  with assms(2) show ?thesis using unlock_result(1,2) by simp
next
  case (Op_setSource source immediate)
  with assms(2) have ret: "setSource U source immediate w = Inr w'" by simp
  show ?thesis
  proof (rule setSource_result [OF ret])
    assume "slices (w_tex w') = slices (w_tex w)" "dimension (w_tex w') = dimension (w_tex w)"
    then show ?thesis by simp
  qed
next
  case (Op_upload immediate)
  with assms(2) have "upload U immediate w = Inr w'" by simp
  then have "upload_view w' = upload_view w" by (rule upload_upload_view)
  from upload_view_tex(7,8) [OF this] show ?thesis by simp
next
  case Op_webgl_upload
  with assms(2) have "webgl_upload U w = Inr w'" by simp
  then have "upload_view w' = upload_view w" by (rule webgl_upload_view)
  from upload_view_tex(7,8) [OF this] show ?thesis by simp
next
  case (Op_minFilter v)
  with assms(2) show ?thesis using setter_shape(1) by simp
next
  case (Op_magFilter v)
  with assms(2) show ?thesis using setter_shape(2) by simp
next
  case (Op_mipmaps v)
  with assms(2) show ?thesis using setter_shape(3) by simp
next
  case (Op_flipY v)
  with assms(2) show ?thesis using setter_shape(4) by auto
next
  case (Op_premultiplyAlpha v)
  with assms(2) show ?thesis using setter_shape(5) by auto
next
  case Op_loseContext
  with assms(2) show ?thesis using setter_shape(6) by simp
next
  case Op_destroy
  with assms(2) show ?thesis using setter_shape(7) by auto
next
  case (Op_resize wd ht sl)
  with assms(1) show ?thesis by simp
qed

lemma run_shape:
  assumes "list_all (\<lambda>op. \<not> is_resize op) ops" and "for_each (apply_op U) ops w = Inr w'"
  shows "slices (w_tex w') = slices (w_tex w) \<and> dimension (w_tex w') = dimension (w_tex w)"
proof (rule for_each_invariant_in
    [where Q = "\<lambda>s. slices (w_tex s) = slices (w_tex w) \<and> dimension (w_tex s) = dimension (w_tex w)",
      OF _ _ assms(2)])
  fix x s s'
  assume "x \<in> set ops" and step: "apply_op U x s = Inr s'"
    and q: "slices (w_tex s) = slices (w_tex w) \<and> dimension (w_tex s) = dimension (w_tex w)"
  then have "\<not> is_resize x" using assms(1) by (simp add: list_all_iff)
  from apply_op_shape [OF this step] q
  show "slices (w_tex s') = slices (w_tex w) \<and> dimension (w_tex s') = dimension (w_tex w)"
    by simp
qed simp


subsection \<open>Cubemaps and their slice count\<close>

lemma constructed_texture_slices:
  "slices (constructed_texture U new_id options) =
     (case opt_slices options of
        None \<Rightarrow> if dimension (constructed_texture U new_id options) = TEXTUREDIMENSION_CUBE
                then 6 else 1
      | Some n \<Rightarrow> n)"
  by (simp add: constructed_texture_def Let_def)

text \<open>
  \<^verbatim>\<open>resize\<close> called without a slice count sets \<^verbatim>\<open>_slices\<close> to 1, on a cubemap as
  on any other texture.
\<close>

lemma resize_slices:
  assumes "resize wd ht sl w = Inr w'"
  shows "slices (w_tex w') = (case sl of None \<Rightarrow> 1 | Some n \<Rightarrow> n)"
    and "dimension (w_tex w') = dimension (w_tex w)"
  using assms
  by (auto simp: resize_def Let_def dirtyAll_eq webgl_destroy_def split: if_splits)

text \<open>
  Claim C6, as amended. A texture constructed as a cubemap holds the slice count given
  in the options, 6 when none is given, and it stays a cubemap with that slice count
  through every run of lock, unlock, setSource, upload, the filter, mipmaps, flipY and
  premultiplyAlpha setters, loseContext and destroy. The assertion "Texture cube map must
  have 6 slices" is in the diagnostics of the construction exactly when a slice count
  other than 6 was given; it does not stop the construction.
\<close>

theorem cubemap_slices:
  assumes "Texture_constructor U graphicsDevice new_id options = Inr w"
    and "cubemap (w_tex w)"
    and "list_all (\<lambda>op. \<not> is_resize op) ops"
    and "for_each (apply_op U) ops w = Inr w'"
  shows "cubemap (w_tex w')
         \<and> slices (w_tex w') = (case opt_slices options of None \<Rightarrow> 6 | Some n \<Rightarrow> n)
         \<and> (Assert_CubeSlices \<in> set (w_diags w) \<longleftrightarrow>
              opt_slices options \<noteq> None \<and> opt_slices options \<noteq> Some 6)"
proof -
  let ?t = "constructed_texture U new_id options"
  note c = constructor_result [OF assms(1)]
  have cube: "dimension ?t = TEXTUREDIMENSION_CUBE"
    using assms(2) c(1) by (simp add: cubemap_def)
  have sl: "slices (w_tex w) = (case opt_slices options of None \<Rightarrow> 6 | Some n \<Rightarrow> n)"
    using c(2) cube by (simp add: constructed_texture_slices)
  have diag: "Assert_CubeSlices \<in> set (w_diags w) \<longleftrightarrow>
              opt_slices options \<noteq> None \<and> opt_slices options \<noteq> Some 6"
    using c(6) cube by (simp add: constructed_texture_slices split: option.splits)
  from run_shape [OF assms(3,4)] sl assms(2) diag show ?thesis
    by (simp add: cubemap_def)
qed

theorem cubemap_slices_witness:
  "Texture_constructor sample_externals sample_device 0 cube_options = Inr cube_world
   \<and> opt_slices cube_options = None
   \<and> cubemap (w_tex cube_world)
   \<and> list_all (\<lambda>op. \<not> is_resize op) sample_ops
   \<and> \<not> isl (for_each (apply_op sample_externals) sample_ops cube_world)
   \<and> slices (w_tex (returned (for_each (apply_op sample_externals) sample_ops cube_world))) = 6
   \<and> cubemap (w_tex (returned (for_each (apply_op sample_externals) sample_ops cube_world)))
   \<and> Assert_CubeSlices \<notin> set (w_diags cube_world)
   \<and> Texture_constructor sample_externals sample_device 0 cube4_options = Inr cube4_world
   \<and> opt_slices cube4_options = Some 4
   \<and> \<not> isl (for_each (apply_op sample_externals) sample_ops cube4_world)
   \<and> slices (w_tex (returned (for_each (apply_op sample_externals) sample_ops cube4_world))) = 4
   \<and> Assert_CubeSlices \<in> set (w_diags cube4_world)"
proof -
  let ?r6 = "for_each (apply_op sample_externals) sample_ops cube_world"
  let ?r4 = "for_each (apply_op sample_externals) sample_ops cube4_world"
  have "\<not> isl (Texture_constructor sample_externals sample_device 0 cube_options)" by code_simp
  then have c6: "Texture_constructor sample_externals sample_device 0 cube_options = Inr cube_world"
    unfolding cube_world_def by (rule returned_eq)
  have "\<not> isl (Texture_constructor sample_externals sample_device 0 cube4_options)" by code_simp
  then have c4: "Texture_constructor sample_externals sample_device 0 cube4_options = Inr cube4_world"
    unfolding cube4_world_def by (rule returned_eq)
  have o6: "opt_slices cube_options = None" and o4: "opt_slices cube4_options = Some 4"
    by (simp_all add: cube_options_def cube4_options_def no_options_def)
  have k6: "cubemap (w_tex cube_world)" and k4: "cubemap (w_tex cube4_world)" by code_simp+
  have ops: "list_all (\<lambda>op. \<not> is_resize op) sample_ops" by (simp add: sample_ops_def)
  have r6: "\<not> isl ?r6" and r4: "\<not> isl ?r4" by code_simp+
  from cubemap_slices [OF c6 k6 ops returned_eq [OF r6]]
       cubemap_slices [OF c4 k4 ops returned_eq [OF r4]]
       c6 c4 o6 o4 k6 ops r6 r4
  show ?thesis by simp
qed

theorem cubemap_four_slices_counterexample:
  "\<not> isl (Texture_constructor sample_externals sample_device 0 cube4_options)
   \<and> opt_cubemap cube4_options
   \<and> opt_slices cube4_options = Some 4
   \<and> cubemap (w_tex cube4_world)
   \<and> slices (w_tex cube4_world) = 4"
  by code_simp

subsection \<open>Where the code departs from the specification\<close>

text \<open>
  Claim C1 (the code does otherwise). A four-slice 8 by 8 array texture is constructed,
  slice 2 of level 0 is locked for writing and unlocked with an immediate upload.
  \<^verbatim>\<open>lock\<close> creates the buffer of slice 2 and an empty Set of dirty slices for level 0,
  to which it never adds the slice: before the upload the dirty set of level 0 is empty,
  not {2}. The upload takes the partial path, finds no dirty slice and makes no upload
  call at all (the log holds the creation and the binding of the texture only); it then
  clears the dirty map.
\<close>

theorem lock_array_slice_not_recorded:
  "\<not> isl (lock sample_externals lock_slice2 array_world)
   \<and> dimension (w_tex array_world) = TEXTUREDIMENSION_2D_ARRAY
   \<and> slices (w_tex array_world) = 4
   \<and> dirtyLevels (w_tex array_world) = []
   \<and> levels (w_tex array_locked) = [(0, Slices [(2, Some (TypedArray 256))])]
   \<and> dirtyLevels (w_tex array_locked) = [(0, DirtySlices [])]
   \<and> lockedMode (w_tex array_locked) = TEXTURELOCK_WRITE
   \<and> \<not> isl (unlock sample_externals True array_locked)
   \<and> gl (w_dev array_locked) = []
   \<and> gl (w_dev array_unlocked) = [CreateTexture, BindTexture (Some TEXTURE_2D_ARRAY)]
   \<and> dirtyLevels (w_tex array_unlocked) = []
   \<and> operation (w_tex array_unlocked) = TEXTURE_OPERATION_NONE"
  by code_simp

text \<open>
  Claim C5 (the code does otherwise). On a texture of the integer format R32U, uploaded
  and with the operation bitmask NONE, \<^verbatim>\<open>mipmaps = true\<close> warns and leaves
  \<^verbatim>\<open>_mipmaps\<close> false, and nevertheless sets the UPLOAD bit of the operation bitmask
  (\<open>set_mipmaps_integer\<close> above gives the new state in general). The two filter setters
  do leave the state alone (\<open>set_minFilter_integer\<close>, \<open>set_magFilter_integer\<close>).
\<close>

theorem mipmaps_setter_integer_texture:
  "isIntegerPixelFormat sample_externals (format (w_tex integer_uploaded))
   \<and> mipmaps (w_tex integer_uploaded) = False
   \<and> operation (w_tex integer_uploaded) = TEXTURE_OPERATION_NONE
   \<and> w_diags integer_uploaded = []
   \<and> \<not> isl (set_mipmaps sample_externals True integer_uploaded)
   \<and> mipmaps (w_tex integer_mipmapped) = False
   \<and> w_diags integer_mipmapped = [Warn_MipmapsInteger]
   \<and> operation (w_tex integer_mipmapped) = TEXTURE_OPERATION_UPLOAD
   \<and> set_minFilter sample_externals FILTER_LINEAR integer_uploaded
        = Inr (Debug_warn Warn_MinFilterInteger integer_uploaded)
   \<and> set_magFilter sample_externals FILTER_LINEAR integer_uploaded
        = Inr (Debug_warn Warn_MagFilterInteger integer_uploaded)"
  by code_simp

text \<open>
  Claim C7 (the code does otherwise). Face 0 of an unlocked cubemap of six faces is locked
  for writing: the mode is valid and the slice is in range, and \<^verbatim>\<open>lock\<close> raises the
  diagnostic "Cannot lock a slice of a non-cubemap or non-texture array texture."
  (\<open>lock_sliced_texture_diagnostic\<close> above: so does every \<^verbatim>\<open>lock\<close> of a cubemap or an
  array texture that returns).
\<close>

theorem lock_cubemap_face_diagnostic:
  "cubemap (w_tex cube_world)
   \<and> slices (w_tex cube_world) = 6
   \<and> lockedMode (w_tex cube_world) = TEXTURELOCK_NONE
   \<and> w_diags cube_world = []
   \<and> \<not> isl (lock sample_externals lock_face0 cube_world)
   \<and> w_diags cube_locked = [Assert_LockSlice]"
  by code_simp

text \<open>
  Claim C9 (the code does otherwise). An 8 by 8 cubemap with mipmaps (four required
  levels) is constructed with its six level-0 faces and uploaded at once: the full path
  uploads the six faces and then calls \<^verbatim>\<open>generateMipmap\<close> three times, once in each
  of the turns for the levels 1, 2 and 3. When level 0 lacks a face and level 1 is
  complete, the chain is generated after level 0, before the faces of level 1 are
  uploaded, and three more times after.
\<close>

theorem full_upload_generates_mipmaps_in_the_loop:
  "\<not> isl (Texture_constructor sample_externals sample_device 0 cube_faces_options)
   \<and> requiredMipLevels (w_tex cube_faces_world) = 4
   \<and> mipmaps (w_tex cube_faces_world) \<and> \<not> compressed (w_tex cube_faces_world)
   \<and> gl (w_dev cube_faces_world) =
       [CreateTexture, BindTexture (Some TEXTURE_CUBE_MAP),
        TexImage2D (TEXTURE_CUBE_MAP_POSITIVE_X 0) 0 (Some (8, 8)) (Some (Single sample_face)),
        TexImage2D (TEXTURE_CUBE_MAP_POSITIVE_X 1) 0 (Some (8, 8)) (Some (Single sample_face)),
        TexImage2D (TEXTURE_CUBE_MAP_POSITIVE_X 2) 0 (Some (8, 8)) (Some (Single sample_face)),
        TexImage2D (TEXTURE_CUBE_MAP_POSITIVE_X 3) 0 (Some (8, 8)) (Some (Single sample_face)),
        TexImage2D (TEXTURE_CUBE_MAP_POSITIVE_X 4) 0 (Some (8, 8)) (Some (Single sample_face)),
        TexImage2D (TEXTURE_CUBE_MAP_POSITIVE_X 5) 0 (Some (8, 8)) (Some (Single sample_face)),
        GenerateMipmap (Some TEXTURE_CUBE_MAP),
        GenerateMipmap (Some TEXTURE_CUBE_MAP),
        GenerateMipmap (Some TEXTURE_CUBE_MAP)]
   \<and> \<not> isl (Texture_constructor sample_externals sample_device 0 cube_gap_options)
   \<and> gl (w_dev cube_gap_world) =
       [CreateTexture, BindTexture (Some TEXTURE_CUBE_MAP),
        TexImage2D (TEXTURE_CUBE_MAP_POSITIVE_X 0) 0 (Some (8, 8)) (Some (Single sample_face)),
        TexImage2D (TEXTURE_CUBE_MAP_POSITIVE_X 1) 0 (Some (8, 8)) (Some (Single sample_face)),
        TexImage2D (TEXTURE_CUBE_MAP_POSITIVE_X 2) 0 (Some (8, 8)) (Some (Single sample_face)),
        TexImage2D (TEXTURE_CUBE_MAP_POSITIVE_X 3) 0 (Some (8, 8)) (Some (Single sample_face)),
        TexImage2D (TEXTURE_CUBE_MAP_POSITIVE_X 4) 0 (Some (8, 8)) (Some (Single sample_face)),
        GenerateMipmap (Some TEXTURE_CUBE_MAP),
        TexImage2D (TEXTURE_CUBE_MAP_POSITIVE_X 0) 1 (Some (4, 4)) (Some (Single sample_face1)),
        TexImage2D (TEXTURE_CUBE_MAP_POSITIVE_X 1) 1 (Some (4, 4)) (Some (Single sample_face1)),
        TexImage2D (TEXTURE_CUBE_MAP_POSITIVE_X 2) 1 (Some (4, 4)) (Some (Single sample_face1)),
        TexImage2D (TEXTURE_CUBE_MAP_POSITIVE_X 3) 1 (Some (4, 4)) (Some (Single sample_face1)),
        TexImage2D (TEXTURE_CUBE_MAP_POSITIVE_X 4) 1 (Some (4, 4)) (Some (Single sample_face1)),
        TexImage2D (TEXTURE_CUBE_MAP_POSITIVE_X 5) 1 (Some (4, 4)) (Some (Single sample_face1)),
        GenerateMipmap (Some TEXTURE_CUBE_MAP),
        GenerateMipmap (Some TEXTURE_CUBE_MAP),
        GenerateMipmap (Some TEXTURE_CUBE_MAP)]"
  by code_simp


subsection \<open>When the methods return\<close>

text \<open>
  On a 2D or 3D texture \<^verbatim>\<open>lock\<close> returns, and \<^verbatim>\<open>setSource\<close> with a deferred
  reupload returns on every live texture.
\<close>

lemma lock_plain_returns:
  assumes "\<not> (array (w_tex w) \<or> cubemap (w_tex w))"
  shows "\<exists>w'. lock U options w = Inr w'"
  using assms by (simp add: lock_def Let_def array_def cubemap_def)

lemma check_faces_live: "\<exists>inv. check_faces True source wd ht is = Inr inv"
  by (induction "is") (auto split: option.splits)

lemma setSource_deferred_returns:
  assumes "has_device (w_tex w)"
  shows "\<exists>w'. setSource U source False w = Inr w'"
proof -
  let ?t0 = "(w_tex w)\<lparr>levels := []\<rparr>"
  have "\<exists>r. checkSource source ?t0 = Inr r"
  proof (cases "cubemap ?t0 \<or> array ?t0")
    case True
    show ?thesis
    proof (cases "source_at source 0")
      case None
      with True show ?thesis by (auto simp: checkSource_def)
    next
      case (Some s0)
      let ?wd = "case src_width s0 of Some x \<Rightarrow> x | None \<Rightarrow> 0"
      let ?ht = "case src_height s0 of Some x \<Rightarrow> x | None \<Rightarrow> 0"
      from check_faces_live [of source ?wd ?ht "[0..slices ?t0 - 1]"]
      obtain inv where "check_faces True source ?wd ?ht [0..slices ?t0 - 1] = Inr inv" ..
      with True Some assms show ?thesis by (auto simp: checkSource_def Let_def)
    qed
  next
    case False
    with assms show ?thesis
      by (cases source) (auto simp: checkSource_def)
  qed
  then show ?thesis
    by (auto simp: setSource_unfold Let_def upload_deferred)
qed

end
